theory Spec2Isabelle
  imports Complex_Main "HOL-Library.AList" "HOL-Library.Sublist"
begin

section \<open>Data model (src/lineage.py, lines 87-124)\<close>

text \<open>
  The four classes of the catalog are plain attribute holders. Every attribute that
  the constructors set is a record field; Python strings are \<open>string\<close>, Python lists
  are HOL lists, the integer scores are \<open>int\<close>. The two timestamps are the strings
  that \<^verbatim>\<open>strftime\<close> produced when the object was built.
\<close>

record Column =
  name :: string
  data_type :: string
  description :: string
  source_columns :: "string list"
  quality_score :: int

record Table =
  name :: string
  schema :: string
  description :: string
  table_type :: string
  autosys_jobs :: "string list"
  columns :: "Column list"
  quality_score :: int
  last_updated :: string

record ColumnMapping =
  source_table :: string
  source_column :: string
  target_table :: string
  target_column :: string
  transformation_rule :: string

record Transformation =
  name :: string
  transformation_type :: string
  input_tables :: "string list"
  output_tables :: "string list"
  logic :: string
  description :: string
  column_mappings :: "ColumnMapping list"
  autosys_jobs :: "string list"
  created_date :: string

text \<open>
  The constructors (lines 88-96, 99-104, 107-116 and 119-124). \<open>now\<close> is the reading
  of the clock, formatted by \<^verbatim>\<open>strftime\<close>. On a list, \<^verbatim>\<open>x or []\<close> is \<open>x\<close>.
\<close>

definition Table_init ::
  "string \<Rightarrow> string \<Rightarrow> string \<Rightarrow> string \<Rightarrow> string list \<Rightarrow> string \<Rightarrow> Table" where
  "Table_init now name' schema' description' autosys_jobs' table_type' =
     \<lparr>Table.name = name', schema = schema', description = description',
      table_type = table_type', autosys_jobs = autosys_jobs', columns = [],
      quality_score = 0, last_updated = now\<rparr>"

definition Column_init :: "string \<Rightarrow> string \<Rightarrow> string \<Rightarrow> string list \<Rightarrow> Column" where
  "Column_init name' data_type' description' source_columns' =
     \<lparr>Column.name = name', data_type = data_type', description = description',
      source_columns = source_columns', quality_score = 0\<rparr>"

definition Transformation_init ::
  "string \<Rightarrow> string \<Rightarrow> string \<Rightarrow> string list \<Rightarrow> string list \<Rightarrow> string \<Rightarrow> string \<Rightarrow>
   ColumnMapping list \<Rightarrow> string list \<Rightarrow> Transformation" where
  "Transformation_init now name' transformation_type' input_tables' output_tables' logic'
     description' column_mappings' autosys_jobs' =
     \<lparr>Transformation.name = name', transformation_type = transformation_type',
      input_tables = input_tables', output_tables = output_tables', logic = logic',
      description = description', column_mappings = column_mappings',
      autosys_jobs = autosys_jobs', created_date = now\<rparr>"

definition ColumnMapping_init ::
  "string \<Rightarrow> string \<Rightarrow> string \<Rightarrow> string \<Rightarrow> string \<Rightarrow> ColumnMapping" where
  "ColumnMapping_init source_table' source_column' target_table' target_column'
     transformation_rule' =
     \<lparr>source_table = source_table', source_column = source_column',
      target_table = target_table', target_column = target_column',
      transformation_rule = transformation_rule'\<rparr>"

text \<open>The part of \<^verbatim>\<open>st.session_state\<close> that holds the catalog.\<close>

record session_state =
  st_tables :: "Table list"
  st_transformations :: "Transformation list"

section \<open>Quality scores (\<^verbatim>\<open>update_quality_scores\<close>, lines 146-167)\<close>

text \<open>
  Python's \<^verbatim>\<open>int(x)\<close> on a float drops the fractional part (it truncates towards
  zero). The float arithmetic of lines 162-164 is modelled on exact rationals, with
  \<open>8 / 10\<close> for \<^verbatim>\<open>0.8\<close>. The exact value is \<open>8 * k / n\<close> plus 0 or 20, for \<open>n\<close>
  columns and an integer \<open>k\<close> of at most \<open>3 * n\<close>: when it is an integer the float
  computation returns that integer, and otherwise it is at least \<open>1 / n\<close> away from
  every integer, far more than the rounding error of a float of this size, so both
  have the same integer part.
\<close>

definition py_int :: "rat \<Rightarrow> int" where
  "py_int x = (if 0 \<le> x then \<lfloor>x\<rfloor> else \<lceil>x\<rceil>)"

text \<open>The body of the inner loop, lines 153-157: the new score of one column.\<close>

definition column_score :: "Column \<Rightarrow> int" where
  "column_score column =
     (let has_description = (if Column.description column \<noteq> [] then 10 else 0);
          has_data_type = (if data_type column \<noteq> [] then 10 else 0);
          has_sources = (if source_columns column \<noteq> [] then 10 else 0)
      in min 100 (has_description + has_data_type + has_sources))"

text \<open>
  The inner loop, lines 151-158: every column gets its score, and \<open>quality_sum\<close>
  accumulates the scores. The result is the updated column list and the sum.
\<close>

fun score_columns :: "Column list \<Rightarrow> int \<Rightarrow> Column list \<times> int" where
  "score_columns [] quality_sum = ([], quality_sum)"
| "score_columns (column # rest) quality_sum =
     (let column' = column\<lparr>Column.quality_score := column_score column\<rparr>;
          (rest', total) = score_columns rest (quality_sum + Column.quality_score column')
      in (column' # rest', total))"

text \<open>The body of the outer loop, lines 150-167.\<close>

definition update_table_score :: "Table \<Rightarrow> Table" where
  "update_table_score table =
     (let (cols, quality_sum) = score_columns (columns table) 0;
          has_description = (if Table.description table \<noteq> [] then 20 else 0)
      in if cols \<noteq> []
         then let avg_column_score = rat_of_int quality_sum / rat_of_nat (length cols)
              in table\<lparr>columns := cols,
                       Table.quality_score :=
                         min 100 (py_int (avg_column_score * (8 / 10) + rat_of_int has_description))\<rparr>
         else table\<lparr>columns := cols, Table.quality_score := has_description\<rparr>)"

definition update_quality_scores :: "session_state \<Rightarrow> session_state" where
  "update_quality_scores st = st\<lparr>st_tables := map update_table_score (st_tables st)\<rparr>"

text \<open>
  The table score as the specification words it: the average of the column scores
  times 0.8 plus the description bonus, rounded to the nearest integer, capped at 100.
\<close>

definition avg :: "int list \<Rightarrow> rat" where
  "avg xs = rat_of_int (sum_list xs) / rat_of_nat (length xs)"

definition description_bonus :: "Table \<Rightarrow> int" where
  "description_bonus table = (if Table.description table \<noteq> [] then 20 else 0)"

definition spec_table_score :: "Table \<Rightarrow> int" where
  "spec_table_score table =
     (if columns table \<noteq> []
      then min 100 (round (avg (map Column.quality_score (columns table)) * (8 / 10)
                           + rat_of_int (description_bonus table)))
      else description_bonus table)"

text \<open>The same formula with the fractional part dropped instead of rounded.\<close>

definition truncated_table_score :: "Table \<Rightarrow> int" where
  "truncated_table_score table =
     (if columns table \<noteq> []
      then min 100 (\<lfloor>avg (map Column.quality_score (columns table)) * (8 / 10)
                     + rat_of_int (description_bonus table)\<rfloor>)
      else description_bonus table)"

section \<open>The directed graph of the networkx library\<close>

text \<open>
  \<^verbatim>\<open>create_lineage_graph\<close> builds a \<^verbatim>\<open>networkx.DiGraph\<close> (line 226). The library is
  not part of the repository; the three operations the builder uses are modelled
  here as the library implements them. A \<^verbatim>\<open>DiGraph\<close> keeps one attribute dictionary
  per node and one per ordered pair of nodes, both in insertion order:
  \<^item> \<^verbatim>\<open>add_node(n, **attr)\<close> creates the node when it is new and merges \<open>attr\<close> into
    its dictionary;
  \<^item> \<^verbatim>\<open>add_edge(u, v, **attr)\<close> creates \<open>u\<close> and \<open>v\<close> when they are new (with empty
    dictionaries) and merges \<open>attr\<close> into the dictionary of the pair \<open>(u, v)\<close>: an
    edge that is already there is not duplicated, its attributes are overwritten;
  \<^item> \<^verbatim>\<open>n in G\<close> tests whether \<open>n\<close> is a node.
  A Python dictionary is an association list here: \<open>AList.update\<close> replaces the
  value of a key in place and appends a new key at the end, as \<^verbatim>\<open>d[k] = v\<close> does.
  The list \<open>edges\<close> has the pairs in the order of their first insertion; networkx
  groups them by source node when it lists them, so the properties below speak of
  which edges there are and what they carry, not of their position.
\<close>

datatype attr_value = Str string | Num int

type_synonym attrs = "(string \<times> attr_value) list"

definition dict_update :: "attrs \<Rightarrow> attrs \<Rightarrow> attrs" where
  "dict_update d new = fold (\<lambda>(k, v). AList.update k v) new d"

record DiGraph =
  nodes :: "(string \<times> attrs) list"
  edges :: "((string \<times> string) \<times> attrs) list"

definition empty_graph :: DiGraph where
  "empty_graph = \<lparr>nodes = [], edges = []\<rparr>"

definition has_node :: "DiGraph \<Rightarrow> string \<Rightarrow> bool" where
  "has_node G n = (n \<in> set (map fst (nodes G)))"

definition node_attrs :: "DiGraph \<Rightarrow> string \<Rightarrow> attrs" where
  "node_attrs G n = (case map_of (nodes G) n of None \<Rightarrow> [] | Some a \<Rightarrow> a)"

definition edge_attrs :: "DiGraph \<Rightarrow> string \<Rightarrow> string \<Rightarrow> attrs" where
  "edge_attrs G u v = (case map_of (edges G) (u, v) of None \<Rightarrow> [] | Some a \<Rightarrow> a)"

definition add_node :: "DiGraph \<Rightarrow> string \<Rightarrow> attrs \<Rightarrow> DiGraph" where
  "add_node G n attr = G\<lparr>nodes := AList.update n (dict_update (node_attrs G n) attr) (nodes G)\<rparr>"

definition add_edge :: "DiGraph \<Rightarrow> string \<Rightarrow> string \<Rightarrow> attrs \<Rightarrow> DiGraph" where
  "add_edge G u v attr =
     (let G1 = (if has_node G u then G else add_node G u []);
          G2 = (if has_node G1 v then G1 else add_node G1 v [])
      in G2\<lparr>edges := AList.update (u, v) (dict_update (edge_attrs G2 u v) attr) (edges G2)\<rparr>)"

section \<open>The lineage graph (\<^verbatim>\<open>create_lineage_graph\<close>, lines 224-314)\<close>

text \<open>The colour table of lines 67-84 and the node colours of lines 229-233.\<close>

definition DATABASE_TYPE_COLORS :: "(string \<times> string) list" where
  "DATABASE_TYPE_COLORS =
     [(''HIVE'', ''#FF9800''), (''Oracle'', ''#F44336''), (''Snowflake'', ''#2196F3''),
      (''PostgreSQL'', ''#336791''), (''MySQL'', ''#4479A1''), (''SQL Server'', ''#CC2927''),
      (''BigQuery'', ''#4285F4''), (''Redshift'', ''#8C4FFF''), (''Teradata'', ''#F37440''),
      (''DB2'', ''#1F70C1''), (''Cassandra'', ''#1287B1''), (''MongoDB'', ''#47A248''),
      (''Spark'', ''#E25A1C''), (''Delta Lake'', ''#00ADD4''), (''Iceberg'', ''#3F7CAC''),
      (''Other'', ''#9E9E9E'')]"

definition table_color :: "Table \<Rightarrow> string" where
  "table_color table =
     (case map_of DATABASE_TYPE_COLORS (table_type table) of
        Some c \<Rightarrow> c
      | None \<Rightarrow> ''#9E9E9E'')"

definition column_color :: string where
  "column_color = ''#2196F3''"

definition transformation_color :: string where
  "transformation_color = ''#FFC107''"

text \<open>\<^verbatim>\<open>sep.join(xs)\<close> and the line break of the tooltips.\<close>

fun join :: "string \<Rightarrow> string list \<Rightarrow> string" where
  "join sep [] = []"
| "join sep [x] = x"
| "join sep (x # y # ys) = x @ sep @ join sep (y # ys)"

definition newline :: string where
  "newline = [CHR 0x0A]"

text \<open>
  The focus test of lines 238-239. \<^verbatim>\<open>focus_entity\<close> is \<^verbatim>\<open>None\<close> or a string; both
  \<^verbatim>\<open>None\<close> and the empty string are false in Python, and then no table is skipped.
\<close>

definition column_node_id :: "Table \<Rightarrow> Column \<Rightarrow> string" where
  "column_node_id table column = Table.name table @ ''.'' @ Column.name column"

definition skipped_by_focus :: "string option \<Rightarrow> Table \<Rightarrow> bool" where
  "skipped_by_focus focus_entity table =
     (case focus_entity of
        None \<Rightarrow> False
      | Some f \<Rightarrow>
          f \<noteq> [] \<and>
          \<not> (f = Table.name table \<or> list_ex (\<lambda>col. f = column_node_id table col) (columns table)))"

definition table_tooltip :: "Table \<Rightarrow> string" where
  "table_tooltip table =
     (let tooltip_text = ''Type: '' @ table_type table @ newline @ ''Schema: '' @ schema table
                         @ newline @ Table.description table
      in if Table.autosys_jobs table \<noteq> []
         then tooltip_text @ newline @ ''Autosys Jobs: '' @ join '', '' (Table.autosys_jobs table)
         else tooltip_text)"

text \<open>The keyword arguments of the \<^verbatim>\<open>add_node\<close> and \<^verbatim>\<open>add_edge\<close> calls.\<close>

definition table_node_attrs :: "Table \<Rightarrow> attrs" where
  "table_node_attrs table =
     [(''label'', Str (Table.name table)),
      (''title'', Str (table_tooltip table)),
      (''shape'', Str ''box''),
      (''color'', Str (table_color table))]"

definition column_node_attrs :: "Column \<Rightarrow> attrs" where
  "column_node_attrs column =
     [(''label'', Str (Column.name column)),
      (''title'', Str (''Type: '' @ data_type column @ newline @ ''Description: ''
                       @ Column.description column)),
      (''shape'', Str ''ellipse''),
      (''color'', Str column_color),
      (''size'', Num 10)]"

text \<open>Lines 257-267: the node of one column and the edge from its table.\<close>

definition add_column_node :: "Table \<Rightarrow> Column \<Rightarrow> DiGraph \<Rightarrow> DiGraph" where
  "add_column_node table column G =
     (let col_node_id = column_node_id table column;
          G1 = add_node G col_node_id (column_node_attrs column)
      in add_edge G1 (Table.name table) col_node_id [])"

text \<open>Lines 236-267: the body of the loop over the tables.\<close>

definition add_table :: "bool \<Rightarrow> string option \<Rightarrow> Table \<Rightarrow> DiGraph \<Rightarrow> DiGraph" where
  "add_table include_columns focus_entity table G =
     (if skipped_by_focus focus_entity table then G
      else let G1 = add_node G (Table.name table) (table_node_attrs table)
           in if include_columns then fold (add_column_node table) (columns table) G1 else G1)"

definition transformation_tooltip :: "Transformation \<Rightarrow> string" where
  "transformation_tooltip transformation =
     (let tooltip_text = ''Type: '' @ transformation_type transformation @ newline
                         @ ''Description: '' @ Transformation.description transformation
      in if Transformation.autosys_jobs transformation \<noteq> []
         then tooltip_text @ newline @ ''Autosys Jobs: ''
              @ join '', '' (Transformation.autosys_jobs transformation)
         else tooltip_text)"

definition transformation_node_attrs :: "Transformation \<Rightarrow> attrs" where
  "transformation_node_attrs transformation =
     [(''label'', Str (Transformation.name transformation)),
      (''title'', Str (transformation_tooltip transformation)),
      (''shape'', Str ''diamond''),
      (''color'', Str transformation_color)]"

definition table_edge_attrs :: "Transformation \<Rightarrow> attrs" where
  "table_edge_attrs transformation =
     [(''label'', Str (Transformation.name transformation)),
      (''title'', Str (Transformation.description transformation))]"

text \<open>Lines 288-295: the body of the loop over the column mappings.\<close>

definition source_id :: "ColumnMapping \<Rightarrow> string" where
  "source_id mapping = source_table mapping @ ''.'' @ source_column mapping"

definition target_id :: "ColumnMapping \<Rightarrow> string" where
  "target_id mapping = target_table mapping @ ''.'' @ target_column mapping"

definition add_mapping_edges :: "Transformation \<Rightarrow> ColumnMapping \<Rightarrow> DiGraph \<Rightarrow> DiGraph" where
  "add_mapping_edges transformation mapping G =
     (if has_node G (source_id mapping) \<and> has_node G (target_id mapping)
      then let G1 = add_edge G (source_id mapping) (Transformation.name transformation)
                      [(''title'', Str (transformation_rule mapping))]
           in add_edge G1 (Transformation.name transformation) (target_id mapping) []
      else G)"

text \<open>Lines 298-304: the connections of a transformation without column mappings.\<close>

definition add_input_edge :: "Transformation \<Rightarrow> string \<Rightarrow> DiGraph \<Rightarrow> DiGraph" where
  "add_input_edge transformation input_table G =
     (if has_node G input_table
      then add_edge G input_table (Transformation.name transformation) []
      else G)"

definition add_output_edge :: "Transformation \<Rightarrow> string \<Rightarrow> DiGraph \<Rightarrow> DiGraph" where
  "add_output_edge transformation output_table G =
     (if has_node G output_table
      then add_edge G (Transformation.name transformation) output_table []
      else G)"

text \<open>Lines 307-312: table-level lineage, the two nested loops.\<close>

definition add_table_edge :: "Transformation \<Rightarrow> string \<Rightarrow> string \<Rightarrow> DiGraph \<Rightarrow> DiGraph" where
  "add_table_edge transformation input_table output_table G =
     (if has_node G input_table \<and> has_node G output_table
      then add_edge G input_table output_table (table_edge_attrs transformation)
      else G)"

definition add_table_edges :: "Transformation \<Rightarrow> string \<Rightarrow> DiGraph \<Rightarrow> DiGraph" where
  "add_table_edges transformation input_table G =
     fold (add_table_edge transformation input_table) (output_tables transformation) G"

text \<open>Lines 270-312: the body of the loop over the transformations.\<close>

definition add_transformation :: "bool \<Rightarrow> Transformation \<Rightarrow> DiGraph \<Rightarrow> DiGraph" where
  "add_transformation include_columns transformation G =
     (if include_columns
      then let G1 = add_node G (Transformation.name transformation)
                      (transformation_node_attrs transformation)
           in if column_mappings transformation \<noteq> []
              then fold (add_mapping_edges transformation) (column_mappings transformation) G1
              else fold (add_output_edge transformation) (output_tables transformation)
                     (fold (add_input_edge transformation) (input_tables transformation) G1)
      else fold (add_table_edges transformation) (input_tables transformation) G)"

definition create_lineage_graph ::
  "Table list \<Rightarrow> Transformation list \<Rightarrow> bool \<Rightarrow> string option \<Rightarrow> DiGraph" where
  "create_lineage_graph tables transformations include_columns focus_entity =
     fold (add_transformation include_columns) transformations
       (fold (add_table include_columns focus_entity) tables empty_graph)"

text \<open>
  An invariant of the table-level build: the attribute dictionary of every edge has
  the keys \<^verbatim>\<open>label\<close> and \<^verbatim>\<open>title\<close>, in this order.
\<close>

definition table_level_edges :: "DiGraph \<Rightarrow> bool" where
  "table_level_edges G = list_all (\<lambda>e. map fst (snd e) = [''label'', ''title'']) (edges G)"

text \<open>
  The graph at the moment the loop of line 288 reaches a mapping: the tables and the
  transformations \<open>earlier\<close> in the list have been processed, the node of the current
  transformation has been added (line 278), and so have the mappings \<open>handled\<close>
  before this one.
\<close>

definition graph_before_mapping ::
  "Table list \<Rightarrow> Transformation list \<Rightarrow> Transformation \<Rightarrow> ColumnMapping list \<Rightarrow> string option
   \<Rightarrow> DiGraph" where
  "graph_before_mapping tables earlier transformation handled focus_entity =
     fold (add_mapping_edges transformation) handled
       (add_node (create_lineage_graph tables earlier True focus_entity)
          (Transformation.name transformation) (transformation_node_attrs transformation))"

text \<open>
  The identifiers that the specification materialises as nodes in column-level mode
  (section 4.3): the name of every table that the focus keeps, \<open>table.column\<close> for
  every column of such a table, and the name of every transformation.
\<close>

definition spec_node_ids :: "Table list \<Rightarrow> Transformation list \<Rightarrow> string option \<Rightarrow> string list" where
  "spec_node_ids tables transformations focus_entity =
     (let kept = filter (\<lambda>table. \<not> skipped_by_focus focus_entity table) tables
      in map Table.name kept
         @ concat (map (\<lambda>table. map (column_node_id table) (columns table)) kept)
         @ map Transformation.name transformations)"

text \<open>
  An invariant of every graph that \<^verbatim>\<open>add_node\<close> and \<^verbatim>\<open>add_edge\<close> build: both ends of
  every edge are nodes.
\<close>

definition edges_join_nodes :: "DiGraph \<Rightarrow> bool" where
  "edges_join_nodes G =
     list_all (\<lambda>e. has_node G (fst (fst e)) \<and> has_node G (snd (fst e))) (edges G)"

section \<open>Python values\<close>

text \<open>
  The dictionaries that \<^verbatim>\<open>search_lineage\<close> returns, the document that
  \<^verbatim>\<open>export_data\<close> hands to \<^verbatim>\<open>json.dump\<close> and the value that \<^verbatim>\<open>json.load\<close> returns are
  Python values built from \<^verbatim>\<open>None\<close>, booleans, integers, strings, lists and
  dictionaries with string keys. A dictionary is the list of its items in insertion
  order.
\<close>

datatype pyval =
  PNone
| PBool bool
| PInt int
| PStr string
| PList "pyval list"
| PDict "(string \<times> pyval) list"

section \<open>Search (\<^verbatim>\<open>search_lineage\<close>, lines 169-222)\<close>

text \<open>
  A Python string is the list of its characters; a character outside ASCII is the
  run of its UTF-8 bytes, which changes neither equality nor containment of valid
  strings. \<^verbatim>\<open>query in s\<close> on two strings holds when \<open>query\<close> is a contiguous part of
  \<open>s\<close>, which is \<open>sublist query s\<close>.

  \<^verbatim>\<open>str.lower\<close> is a function of Python's library, not of the repository: it follows
  the Unicode case tables and is not a character-by-character map (a final capital
  sigma becomes another letter than one inside a word). The search takes it as the
  parameter \<open>lower\<close>, so every statement about the search holds for the library's
  function, whatever it does to a string.
\<close>

definition py_in :: "string \<Rightarrow> string \<Rightarrow> bool" where
  "py_in query s = sublist query s"

record search_results =
  table_results :: "pyval list"
  column_results :: "pyval list"
  transformation_results :: "pyval list"

text \<open>The result dictionaries of lines 187-193, 198-204 and 214-220.\<close>

definition table_result :: "Table \<Rightarrow> pyval" where
  "table_result table =
     PDict [(''name'', PStr (Table.name table)),
            (''schema'', PStr (schema table)),
            (''description'', PStr (Table.description table)),
            (''table_type'', PStr (table_type table)),
            (''type'', PStr ''table'')]"

definition column_result :: "Table \<Rightarrow> Column \<Rightarrow> pyval" where
  "column_result table column =
     PDict [(''name'', PStr (Table.name table @ ''.'' @ Column.name column)),
            (''data_type'', PStr (data_type column)),
            (''description'', PStr (Column.description column)),
            (''table'', PStr (Table.name table)),
            (''type'', PStr ''column'')]"

definition transformation_result :: "Transformation \<Rightarrow> pyval" where
  "transformation_result transformation =
     PDict [(''name'', PStr (Transformation.name transformation)),
            (''type'', PStr (transformation_type transformation)),
            (''description'', PStr (Transformation.description transformation)),
            (''input_tables'', PList (map PStr (input_tables transformation))),
            (''output_tables'', PList (map PStr (output_tables transformation)))]"

text \<open>
  The three tests, lines 178-186, 197 and 209-213. The argument \<open>query\<close> is the
  lower-cased query of line 173.
\<close>

definition table_matches :: "(string \<Rightarrow> string) \<Rightarrow> string \<Rightarrow> Table \<Rightarrow> bool" where
  "table_matches lower query table =
     (let autosys_match = list_ex (\<lambda>job. py_in query (lower job)) (Table.autosys_jobs table);
          table_type_match = py_in query (lower (table_type table))
      in py_in query (lower (Table.name table)) \<or>
         py_in query (lower (Table.description table)) \<or>
         py_in query (lower (schema table)) \<or>
         table_type_match \<or>
         autosys_match)"

definition column_matches :: "(string \<Rightarrow> string) \<Rightarrow> string \<Rightarrow> Column \<Rightarrow> bool" where
  "column_matches lower query column =
     (py_in query (lower (Column.name column)) \<or>
      py_in query (lower (Column.description column)) \<or>
      py_in query (lower (data_type column)))"

definition transformation_matches ::
  "(string \<Rightarrow> string) \<Rightarrow> string \<Rightarrow> Transformation \<Rightarrow> bool" where
  "transformation_matches lower query transformation =
     (let autosys_match =
            list_ex (\<lambda>job. py_in query (lower job)) (Transformation.autosys_jobs transformation)
      in py_in query (lower (Transformation.name transformation)) \<or>
         py_in query (lower (Transformation.description transformation)) \<or>
         py_in query (lower (logic transformation)) \<or>
         autosys_match)"

text \<open>The loop bodies: each appends to one list of the results.\<close>

definition search_column ::
  "(string \<Rightarrow> string) \<Rightarrow> string \<Rightarrow> Table \<Rightarrow> Column \<Rightarrow> search_results \<Rightarrow> search_results" where
  "search_column lower query table column results =
     (if column_matches lower query column
      then results\<lparr>column_results := column_results results @ [column_result table column]\<rparr>
      else results)"

definition search_table ::
  "(string \<Rightarrow> string) \<Rightarrow> string \<Rightarrow> Table \<Rightarrow> search_results \<Rightarrow> search_results" where
  "search_table lower query table results =
     (let results1 =
            (if table_matches lower query table
             then results\<lparr>table_results := table_results results @ [table_result table]\<rparr>
             else results)
      in fold (search_column lower query table) (columns table) results1)"

definition search_transformation ::
  "(string \<Rightarrow> string) \<Rightarrow> string \<Rightarrow> Transformation \<Rightarrow> search_results \<Rightarrow> search_results" where
  "search_transformation lower query transformation results =
     (if transformation_matches lower query transformation
      then results\<lparr>transformation_results :=
                     transformation_results results @ [transformation_result transformation]\<rparr>
      else results)"

definition search_lineage ::
  "(string \<Rightarrow> string) \<Rightarrow> string \<Rightarrow> Table list \<Rightarrow> Transformation list \<Rightarrow> search_results" where
  "search_lineage lower query tables transformations =
     (let results = \<lparr>table_results = [], column_results = [], transformation_results = []\<rparr>;
          query = lower query;
          results = fold (search_table lower query) tables results
      in fold (search_transformation lower query) transformations results)"

section \<open>Export (\<^verbatim>\<open>export_data\<close>, lines 357-381)\<close>

text \<open>
  \<^verbatim>\<open>obj.__dict__\<close> lists the attributes of an object in the order in which the
  constructor assigned them. For a table the entry \<^verbatim>\<open>columns\<close> is replaced in place
  by the list of column dictionaries, and so is \<^verbatim>\<open>column_mappings\<close> for a
  transformation.
\<close>

definition column_dict :: "Column \<Rightarrow> pyval" where
  "column_dict col =
     PDict [(''name'', PStr (Column.name col)),
            (''data_type'', PStr (data_type col)),
            (''description'', PStr (Column.description col)),
            (''source_columns'', PList (map PStr (source_columns col))),
            (''quality_score'', PInt (Column.quality_score col))]"

definition table_dict :: "Table \<Rightarrow> pyval" where
  "table_dict table =
     PDict [(''name'', PStr (Table.name table)),
            (''schema'', PStr (schema table)),
            (''description'', PStr (Table.description table)),
            (''table_type'', PStr (table_type table)),
            (''autosys_jobs'', PList (map PStr (Table.autosys_jobs table))),
            (''columns'', PList (map column_dict (columns table))),
            (''quality_score'', PInt (Table.quality_score table)),
            (''last_updated'', PStr (last_updated table))]"

definition mapping_dict :: "ColumnMapping \<Rightarrow> pyval" where
  "mapping_dict mapping =
     PDict [(''source_table'', PStr (source_table mapping)),
            (''source_column'', PStr (source_column mapping)),
            (''target_table'', PStr (target_table mapping)),
            (''target_column'', PStr (target_column mapping)),
            (''transformation_rule'', PStr (transformation_rule mapping))]"

definition transformation_dict :: "Transformation \<Rightarrow> pyval" where
  "transformation_dict transformation =
     PDict [(''name'', PStr (Transformation.name transformation)),
            (''transformation_type'', PStr (transformation_type transformation)),
            (''input_tables'', PList (map PStr (input_tables transformation))),
            (''output_tables'', PList (map PStr (output_tables transformation))),
            (''logic'', PStr (logic transformation)),
            (''description'', PStr (Transformation.description transformation)),
            (''column_mappings'', PList (map mapping_dict (column_mappings transformation))),
            (''autosys_jobs'', PList (map PStr (Transformation.autosys_jobs transformation))),
            (''created_date'', PStr (created_date transformation))]"

definition export_document :: "Table list \<Rightarrow> Transformation list \<Rightarrow> pyval" where
  "export_document tables transformations =
     PDict [(''tables'', PList (map table_dict tables)),
            (''transformations'', PList (map transformation_dict transformations))]"

text \<open>
  The file system maps a path to the content of the file there. A file holds the
  text of a JSON document (\<^verbatim>\<open>json.load\<close> returns the value \<^verbatim>\<open>json.dump\<close> was given),
  a text that is not JSON, or it cannot be read. \<open>can_write\<close> says whether opening
  the path for writing succeeds.
\<close>

datatype file_content = Document pyval | NotJSON | Unreadable

type_synonym filesystem = "string \<Rightarrow> file_content option"

text \<open>
  The exceptions of the import and the export. \<open>Unrepresentable\<close> is no Python
  exception: it marks a document that the typed records cannot hold (see \<open>as_str\<close>
  below).
\<close>

datatype error =
  FileNotFoundError
| JSONDecodeError
| OSError
| KeyError string
| TypeError
| AttributeError
| Unrepresentable

datatype report = Success | Failure error

definition export_data ::
  "Table list \<Rightarrow> Transformation list \<Rightarrow> string \<Rightarrow> bool \<Rightarrow> filesystem \<Rightarrow> filesystem \<times> report" where
  "export_data tables transformations filepath can_write fs =
     (let data = export_document tables transformations
      in if can_write then (fs(filepath \<mapsto> Document data), Success)
         else (fs, Failure OSError))"

section \<open>Import (\<^verbatim>\<open>import_data\<close>, lines 383-454)\<close>

text \<open>
  Every statement of the \<^verbatim>\<open>try\<close> block can raise; a raise is the value \<open>Inl e\<close>,
  and \<open>ebind\<close> runs the rest of the block only after a statement that returned.
\<close>

definition ebind :: "error + 'a \<Rightarrow> ('a \<Rightarrow> error + 'b) \<Rightarrow> error + 'b" where
  "ebind r f = (case r of Inl e \<Rightarrow> Inl e | Inr x \<Rightarrow> f x)"

text \<open>
  The operations of Python on a loaded value: \<^verbatim>\<open>d[key]\<close> with a string key,
  \<^verbatim>\<open>d.get(key, default)\<close>, \<^verbatim>\<open>key in d\<close> and \<^verbatim>\<open>for x in d\<close>. Only a dictionary has
  \<^verbatim>\<open>get\<close>; a string key subscripts only a dictionary; a list yields its elements, a
  dictionary its keys, a string its characters, and nothing else can be iterated.
\<close>

definition subscript :: "pyval \<Rightarrow> string \<Rightarrow> error + pyval" where
  "subscript d key =
     (case d of
        PDict items \<Rightarrow> (case map_of items key of Some v \<Rightarrow> Inr v | None \<Rightarrow> Inl (KeyError key))
      | _ \<Rightarrow> Inl TypeError)"

definition dict_get :: "pyval \<Rightarrow> string \<Rightarrow> pyval \<Rightarrow> error + pyval" where
  "dict_get d key dflt =
     (case d of
        PDict items \<Rightarrow> Inr (case map_of items key of Some v \<Rightarrow> v | None \<Rightarrow> dflt)
      | _ \<Rightarrow> Inl AttributeError)"

text \<open>
  \<^verbatim>\<open>key in d\<close> is evaluated in lines 398, 400, 411 and 429 only after \<^verbatim>\<open>d["name"]\<close>
  has returned, so \<open>d\<close> is a dictionary there.
\<close>

definition key_in :: "string \<Rightarrow> pyval \<Rightarrow> bool" where
  "key_in key d = (case d of PDict items \<Rightarrow> key \<in> set (map fst items) | _ \<Rightarrow> False)"

definition iterate :: "pyval \<Rightarrow> error + pyval list" where
  "iterate v =
     (case v of
        PList xs \<Rightarrow> Inr xs
      | PDict items \<Rightarrow> Inr (map (\<lambda>item. PStr (fst item)) items)
      | PStr s \<Rightarrow> Inr (map (\<lambda>c. PStr [c]) s)
      | _ \<Rightarrow> Inl TypeError)"

text \<open>
  The records are typed and Python's objects are not. Python stores whatever value
  the document has for a field; a value of another type than the record declares (a
  number as a name, say) cannot be stored in the record, and the model stops there
  with \<open>Unrepresentable\<close>. Such documents are outside the model: nothing is claimed
  about them. \<^verbatim>\<open>x or []\<close> in the constructors replaces every false value by the
  empty list.
\<close>

definition as_str :: "pyval \<Rightarrow> error + string" where
  "as_str v = (case v of PStr s \<Rightarrow> Inr s | _ \<Rightarrow> Inl Unrepresentable)"

definition as_int :: "pyval \<Rightarrow> error + int" where
  "as_int v = (case v of PInt i \<Rightarrow> Inr i | _ \<Rightarrow> Inl Unrepresentable)"

fun as_strs :: "pyval list \<Rightarrow> error + string list" where
  "as_strs [] = Inr []"
| "as_strs (v # vs) = ebind (as_str v) (\<lambda>s. ebind (as_strs vs) (\<lambda>ss. Inr (s # ss)))"

definition as_str_list :: "pyval \<Rightarrow> error + string list" where
  "as_str_list v = (case v of PList vs \<Rightarrow> as_strs vs | _ \<Rightarrow> Inl Unrepresentable)"

definition falsy :: "pyval \<Rightarrow> bool" where
  "falsy v =
     (case v of
        PNone \<Rightarrow> True
      | PBool b \<Rightarrow> \<not> b
      | PInt i \<Rightarrow> i = 0
      | PStr s \<Rightarrow> s = []
      | PList vs \<Rightarrow> vs = []
      | PDict items \<Rightarrow> items = [])"

definition or_empty_list :: "pyval \<Rightarrow> pyval" where
  "or_empty_list v = (if falsy v then PList [] else v)"

text \<open>Lines 405-413: one column.\<close>

definition parse_column :: "pyval \<Rightarrow> error + Column" where
  "parse_column col_data =
     ebind (subscript col_data ''name'') (\<lambda>name_v.
     ebind (subscript col_data ''data_type'') (\<lambda>data_type_v.
     ebind (subscript col_data ''description'') (\<lambda>description_v.
     ebind (dict_get col_data ''source_columns'' (PList [])) (\<lambda>source_columns_v.
     ebind (as_str name_v) (\<lambda>n.
     ebind (as_str data_type_v) (\<lambda>dt.
     ebind (as_str description_v) (\<lambda>d.
     ebind (as_str_list (or_empty_list source_columns_v)) (\<lambda>srcs.
     let column = Column_init n dt d srcs
     in if key_in ''quality_score'' col_data
        then ebind (subscript col_data ''quality_score'') (\<lambda>quality_score_v.
             ebind (as_int quality_score_v) (\<lambda>q.
               Inr (column\<lparr>Column.quality_score := q\<rparr>)))
        else Inr column))))))))"

fun parse_columns :: "pyval list \<Rightarrow> error + Column list" where
  "parse_columns [] = Inr []"
| "parse_columns (col_data # rest) =
     ebind (parse_column col_data) (\<lambda>column.
     ebind (parse_columns rest) (\<lambda>columns. Inr (column # columns)))"

text \<open>
  Lines 391-414: one table. The constructor reads the clock for \<^verbatim>\<open>last_updated\<close>
  (line 96); \<open>now\<close> is that reading, and lines 400-401 replace it by the stored
  value when the document has one.
\<close>

definition parse_table :: "string \<Rightarrow> pyval \<Rightarrow> error + Table" where
  "parse_table now table_data =
     ebind (subscript table_data ''name'') (\<lambda>name_v.
     ebind (subscript table_data ''schema'') (\<lambda>schema_v.
     ebind (subscript table_data ''description'') (\<lambda>description_v.
     ebind (dict_get table_data ''autosys_jobs'' (PList [])) (\<lambda>autosys_jobs_v.
     ebind (dict_get table_data ''table_type'' (PStr ''Other'')) (\<lambda>table_type_v.
     ebind (as_str name_v) (\<lambda>n.
     ebind (as_str schema_v) (\<lambda>s.
     ebind (as_str description_v) (\<lambda>d.
     ebind (as_str_list (or_empty_list autosys_jobs_v)) (\<lambda>jobs.
     ebind (as_str table_type_v) (\<lambda>tt.
     ebind (if key_in ''quality_score'' table_data
            then ebind (subscript table_data ''quality_score'') (\<lambda>quality_score_v.
                 ebind (as_int quality_score_v) (\<lambda>q.
                   Inr ((Table_init now n s d jobs tt)\<lparr>Table.quality_score := q\<rparr>)))
            else Inr (Table_init now n s d jobs tt)) (\<lambda>table.
     ebind (if key_in ''last_updated'' table_data
            then ebind (subscript table_data ''last_updated'') (\<lambda>last_updated_v.
                 ebind (as_str last_updated_v) (\<lambda>lu.
                   Inr (table\<lparr>last_updated := lu\<rparr>)))
            else Inr table) (\<lambda>table.
     ebind (dict_get table_data ''columns'' (PList [])) (\<lambda>columns_v.
     ebind (iterate columns_v) (\<lambda>col_items.
     ebind (parse_columns col_items) (\<lambda>cols.
       Inr (table\<lparr>columns := cols\<rparr>))))))))))))))))"

text \<open>
  The loop of lines 390-414. Each \<^verbatim>\<open>Table(...)\<close> reads the clock once; \<open>clock k\<close> is
  the reading of the \<open>k\<close>-th call of \<^verbatim>\<open>datetime.datetime.now()\<close> during the import.
\<close>

fun parse_tables :: "(nat \<Rightarrow> string) \<Rightarrow> nat \<Rightarrow> pyval list \<Rightarrow> error + Table list" where
  "parse_tables clock k [] = Inr []"
| "parse_tables clock k (table_data # rest) =
     ebind (parse_table (clock k) table_data) (\<lambda>table.
     ebind (parse_tables clock (Suc k) rest) (\<lambda>tables. Inr (table # tables)))"

text \<open>Lines 432-439: one column mapping.\<close>

definition parse_mapping :: "pyval \<Rightarrow> error + ColumnMapping" where
  "parse_mapping mapping_data =
     ebind (subscript mapping_data ''source_table'') (\<lambda>source_table_v.
     ebind (subscript mapping_data ''source_column'') (\<lambda>source_column_v.
     ebind (subscript mapping_data ''target_table'') (\<lambda>target_table_v.
     ebind (subscript mapping_data ''target_column'') (\<lambda>target_column_v.
     ebind (dict_get mapping_data ''transformation_rule'' (PStr [])) (\<lambda>rule_v.
     ebind (as_str source_table_v) (\<lambda>st.
     ebind (as_str source_column_v) (\<lambda>sc.
     ebind (as_str target_table_v) (\<lambda>tt.
     ebind (as_str target_column_v) (\<lambda>tc.
     ebind (as_str rule_v) (\<lambda>rule.
       Inr (ColumnMapping_init st sc tt tc rule)))))))))))"

fun parse_mappings :: "pyval list \<Rightarrow> error + ColumnMapping list" where
  "parse_mappings [] = Inr []"
| "parse_mappings (mapping_data # rest) =
     ebind (parse_mapping mapping_data) (\<lambda>mapping.
     ebind (parse_mappings rest) (\<lambda>mappings. Inr (mapping # mappings)))"

text \<open>
  Lines 418-441: one transformation. The call of line 418 passes no
  \<^verbatim>\<open>column_mappings\<close>, so the constructor starts with the empty list. It sets
  \<^verbatim>\<open>created_date\<close> from the clock (line 116), and no later line of the import
  assigns it: the entry \<^verbatim>\<open>created_date\<close> of the document is never read.
\<close>

definition parse_transformation :: "string \<Rightarrow> pyval \<Rightarrow> error + Transformation" where
  "parse_transformation now trans_data =
     ebind (subscript trans_data ''name'') (\<lambda>name_v.
     ebind (subscript trans_data ''transformation_type'') (\<lambda>transformation_type_v.
     ebind (subscript trans_data ''input_tables'') (\<lambda>input_tables_v.
     ebind (subscript trans_data ''output_tables'') (\<lambda>output_tables_v.
     ebind (subscript trans_data ''logic'') (\<lambda>logic_v.
     ebind (subscript trans_data ''description'') (\<lambda>description_v.
     ebind (dict_get trans_data ''autosys_jobs'' (PList [])) (\<lambda>autosys_jobs_v.
     ebind (as_str name_v) (\<lambda>n.
     ebind (as_str transformation_type_v) (\<lambda>ty.
     ebind (as_str_list input_tables_v) (\<lambda>ins.
     ebind (as_str_list output_tables_v) (\<lambda>outs.
     ebind (as_str logic_v) (\<lambda>l.
     ebind (as_str description_v) (\<lambda>d.
     ebind (as_str_list (or_empty_list autosys_jobs_v)) (\<lambda>jobs.
     let transformation = Transformation_init now n ty ins outs l d [] jobs
     in if key_in ''column_mappings'' trans_data
        then ebind (subscript trans_data ''column_mappings'') (\<lambda>mappings_v.
             ebind (iterate mappings_v) (\<lambda>mapping_items.
             ebind (parse_mappings mapping_items) (\<lambda>mappings.
               Inr (transformation\<lparr>column_mappings := mappings\<rparr>))))
        else Inr transformation))))))))))))))"

fun parse_transformations ::
  "(nat \<Rightarrow> string) \<Rightarrow> nat \<Rightarrow> pyval list \<Rightarrow> error + Transformation list" where
  "parse_transformations clock k [] = Inr []"
| "parse_transformations clock k (trans_data # rest) =
     ebind (parse_transformation (clock k) trans_data) (\<lambda>transformation.
     ebind (parse_transformations clock (Suc k) rest) (\<lambda>transformations.
       Inr (transformation # transformations)))"

text \<open>Lines 386-387: opening the file and \<^verbatim>\<open>json.load\<close>.\<close>

definition read_json :: "filesystem \<Rightarrow> string \<Rightarrow> error + pyval" where
  "read_json fs filepath =
     (case fs filepath of
        None \<Rightarrow> Inl FileNotFoundError
      | Some Unreadable \<Rightarrow> Inl OSError
      | Some NotJSON \<Rightarrow> Inl JSONDecodeError
      | Some (Document data) \<Rightarrow> Inr data)"

text \<open>
  Lines 389-441: the two lists are built in local variables. The tables come first,
  so the first transformation gets the clock reading after the last table's.
\<close>

definition load_catalog ::
  "(nat \<Rightarrow> string) \<Rightarrow> pyval \<Rightarrow> error + (Table list \<times> Transformation list)" where
  "load_catalog clock data =
     ebind (dict_get data ''tables'' (PList [])) (\<lambda>tables_v.
     ebind (iterate tables_v) (\<lambda>table_items.
     ebind (parse_tables clock 0 table_items) (\<lambda>tables.
     ebind (dict_get data ''transformations'' (PList [])) (\<lambda>transformations_v.
     ebind (iterate transformations_v) (\<lambda>trans_items.
     ebind (parse_transformations clock (length tables) trans_items) (\<lambda>transformations.
       Inr (tables, transformations)))))))"

text \<open>
  The whole function: the session state is assigned in lines 444-445, after both
  lists are complete; each \<^verbatim>\<open>except\<close> clause only reports the error.
\<close>

definition import_data ::
  "(nat \<Rightarrow> string) \<Rightarrow> filesystem \<Rightarrow> string \<Rightarrow> session_state \<Rightarrow> session_state \<times> report" where
  "import_data clock fs filepath st =
     (case ebind (read_json fs filepath) (load_catalog clock) of
        Inl e \<Rightarrow> (st, Failure e)
      | Inr (tables, transformations) \<Rightarrow>
          (st\<lparr>st_tables := tables, st_transformations := transformations\<rparr>, Success))"

section \<open>Example catalogs\<close>

text \<open>A table with three columns whose scores are 10, 10 and 20.\<close>

definition orders_table :: Table where
  "orders_table =
     (Table_init ''2024-01-01 00:00:00'' ''orders'' ''sales'' ''All orders'' [''load_orders''] ''HIVE'')
       \<lparr>columns := [Column_init ''id'' ''int'' [] [],
                    Column_init ''customer'' ''text'' [] [],
                    Column_init ''total'' ''decimal'' ''Order total'' []]\<rparr>"

definition orders_state :: session_state where
  "orders_state = \<lparr>st_tables = [orders_table], st_transformations = []\<rparr>"

text \<open>
  The examples are written in ASCII. On a string of ASCII characters \<^verbatim>\<open>str.lower\<close>
  maps the letters A-Z to a-z and keeps every other character; \<open>ascii_lower\<close> is this
  restriction of \<^verbatim>\<open>str.lower\<close>, and it is applied to ASCII strings only.
\<close>

definition ascii_lower_char :: "char \<Rightarrow> char" where
  "ascii_lower_char c =
     (let n = (of_char c :: nat) in if 65 \<le> n \<and> n \<le> 90 then char_of (n + 32) else c)"

definition ascii_lower :: "string \<Rightarrow> string" where
  "ascii_lower s = map ascii_lower_char s"

text \<open>A transformation whose only link to the word "load" is a scheduler job.\<close>

definition enrich_transformation :: Transformation where
  "enrich_transformation =
     Transformation_init ''2024-01-02 00:00:00'' ''enrich'' ''SQL'' [''orders''] [''report'']
       ''SELECT 1'' ''Enrichment'' [] [''Load_Enrich'']"

text \<open>
  An import six months after the export: every reading of the clock during the
  import is the same later second.
\<close>

definition import_clock :: "nat \<Rightarrow> string" where
  "import_clock k = ''2024-07-01 09:30:00''"

definition exported_files :: filesystem where
  "exported_files =
     fst (export_data [orders_table] [enrich_transformation] ''catalog.json'' True Map.empty)"

text \<open>
  A document whose first table is complete and whose second table has no
  \<^verbatim>\<open>name\<close>, and a file system that holds it next to a file that is not JSON.
\<close>

definition broken_document :: pyval where
  "broken_document =
     PDict [(''tables'', PList [table_dict orders_table, PDict [(''schema'', PStr ''sales'')]]),
            (''transformations'', PList [])]"

definition broken_files :: filesystem where
  "broken_files =
     [''broken.json'' \<mapsto> Document broken_document, ''notes.txt'' \<mapsto> NotJSON]"

text \<open>
  Three tables \<open>A\<close>, \<open>B\<close>, \<open>C\<close> with the columns \<open>A.x\<close> and \<open>B.y\<close>, and the
  transformations of the graph examples: \<open>T\<close> maps \<open>A.x\<close> to \<open>B.y\<close>; \<open>T1\<close> and \<open>T2\<close> both
  lead from \<open>A\<close> to \<open>B\<close>; \<open>merge\<close> leads from \<open>A\<close> and \<open>B\<close> to \<open>C\<close>; \<open>T_dangling\<close> has a
  second mapping whose target \<open>D.z\<close> is in no table.
\<close>

definition table_A :: Table where
  "table_A =
     (Table_init ''2024-01-01 00:00:00'' ''A'' ''raw'' ''Source'' [] ''Oracle'')
       \<lparr>columns := [Column_init ''x'' ''int'' [] []]\<rparr>"

definition table_B :: Table where
  "table_B =
     (Table_init ''2024-01-01 00:00:00'' ''B'' ''mart'' ''Target'' [] ''Snowflake'')
       \<lparr>columns := [Column_init ''y'' ''int'' [] [''A.x'']]\<rparr>"

definition table_C :: Table where
  "table_C = Table_init ''2024-01-01 00:00:00'' ''C'' ''mart'' [] [] ''Other''"

definition mapping_xy :: ColumnMapping where
  "mapping_xy = ColumnMapping_init ''A'' ''x'' ''B'' ''y'' ''copy''"

definition mapping_xz :: ColumnMapping where
  "mapping_xz = ColumnMapping_init ''A'' ''x'' ''D'' ''z'' ''copy''"

definition transformation_T :: Transformation where
  "transformation_T =
     Transformation_init ''2024-01-01 00:00:00'' ''T'' ''SQL'' [''A''] [''B'']
       ''INSERT INTO B SELECT x FROM A'' ''Copy'' [mapping_xy] []"

definition transformation_T1 :: Transformation where
  "transformation_T1 =
     Transformation_init ''2024-01-01 00:00:00'' ''T1'' ''SQL'' [''A''] [''B'']
       ''INSERT INTO B SELECT x FROM A'' ''First load'' [] []"

definition transformation_T2 :: Transformation where
  "transformation_T2 =
     Transformation_init ''2024-01-01 00:00:00'' ''T2'' ''Python'' [''A''] [''B'']
       ''copy(A, B)'' ''Second load'' [] []"

definition transformation_merge :: Transformation where
  "transformation_merge =
     Transformation_init ''2024-01-01 00:00:00'' ''merge'' ''ETL'' [''A'', ''B''] [''C'']
       ''A JOIN B'' ''Merge'' [] []"

definition transformation_T_dangling :: Transformation where
  "transformation_T_dangling =
     Transformation_init ''2024-01-01 00:00:00'' ''T'' ''SQL'' [''A''] [''B'']
       ''INSERT INTO B SELECT x FROM A'' ''Copy'' [mapping_xy, mapping_xz] []"

section \<open>Properties of the quality scores\<close>

lemma column_score_cases:
  "column_score c =
     (if Column.description c \<noteq> [] then 10 else 0) + (if data_type c \<noteq> [] then 10 else 0)
     + (if source_columns c \<noteq> [] then 10 else 0)"
  by (simp add: column_score_def)

lemma score_columns_fst:
  "fst (score_columns cs s) = map (\<lambda>c. c\<lparr>Column.quality_score := column_score c\<rparr>) cs"
  by (induction cs arbitrary: s) (simp_all add: Let_def case_prod_beta)

lemma score_columns_snd:
  "snd (score_columns cs s) = s + sum_list (map column_score cs)"
  by (induction cs arbitrary: s) (simp_all add: Let_def case_prod_beta)

lemma column_score_nonneg: "0 \<le> column_score c"
  by (simp add: column_score_cases)

lemma sum_column_score_nonneg: "0 \<le> sum_list (map column_score cs)"
  by (induction cs) (simp_all add: column_score_nonneg)

lemma columns_update_table_score:
  "columns (update_table_score t) =
     map (\<lambda>c. c\<lparr>Column.quality_score := column_score c\<rparr>) (columns t)"
  using score_columns_fst [of "columns t" 0]
  by (simp add: update_table_score_def Let_def case_prod_beta)

lemma description_update_table_score:
  "Table.description (update_table_score t) = Table.description t"
  by (simp add: update_table_score_def Let_def case_prod_beta)

lemma quality_score_update_table_score:
  "Table.quality_score (update_table_score t) =
     (if columns t \<noteq> []
      then min 100 (\<lfloor>rat_of_int (sum_list (map column_score (columns t)))
                       / rat_of_nat (length (columns t)) * (8 / 10)
                     + rat_of_int (description_bonus t)\<rfloor>)
      else description_bonus t)"
proof -
  obtain cols s where sc: "score_columns (columns t) 0 = (cols, s)"
    by (cases "score_columns (columns t) 0")
  have cols: "cols = map (\<lambda>c. c\<lparr>Column.quality_score := column_score c\<rparr>) (columns t)"
    using score_columns_fst [of "columns t" 0] sc by simp
  have s: "s = sum_list (map column_score (columns t))"
    using score_columns_snd [of "columns t" 0] sc by simp
  have nonneg: "0 \<le> rat_of_int s / rat_of_nat (length (columns t)) * (8 / 10)
                     + rat_of_int (description_bonus t)"
    using sum_column_score_nonneg [of "columns t"]
    by (simp add: s description_bonus_def)
  show ?thesis
    using nonneg
    by (simp add: update_table_score_def sc cols py_int_def description_bonus_def s)
qed

lemma floor_rat_numeral:
  "\<lfloor>(numeral a :: rat) / numeral b\<rfloor> = numeral a div numeral b"
  by (metis floor_divide_of_int_eq of_int_numeral)

lemma map_quality_score_update:
  "map Column.quality_score (columns (update_table_score t)) = map column_score (columns t)"
  by (simp add: columns_update_table_score)

lemma description_bonus_update:
  "description_bonus (update_table_score t) = description_bonus t"
  by (simp add: description_bonus_def description_update_table_score)

lemma columns_update_empty:
  "columns (update_table_score t) = [] \<longleftrightarrow> columns t = []"
  by (simp add: columns_update_table_score)

lemma update_table_score_floor:
  "Table.quality_score (update_table_score t) = truncated_table_score (update_table_score t)"
  by (simp add: quality_score_update_table_score truncated_table_score_def
      map_quality_score_update description_bonus_update avg_def columns_update_empty)

lemma orders_state_updated:
  "st_tables (update_quality_scores orders_state) = [update_table_score orders_table]"
  by (simp add: update_quality_scores_def orders_state_def)

lemma orders_table_columns_updated:
  "columns (update_table_score orders_table) =
     [(Column_init ''id'' ''int'' [] [])\<lparr>Column.quality_score := 10\<rparr>,
      (Column_init ''customer'' ''text'' [] [])\<lparr>Column.quality_score := 10\<rparr>,
      (Column_init ''total'' ''decimal'' ''Order total'' [])\<lparr>Column.quality_score := 20\<rparr>]"
  by (simp add: columns_update_table_score orders_table_def Table_init_def Column_init_def
      column_score_def)

text \<open>
  C7. After the recomputation every column's score is the sum of three 10-point
  bonuses (non-empty description, non-empty data type, non-empty source list), so it
  is one of 0, 10, 20, 30 and never more than 30.
\<close>

theorem column_score_range:
  "\<forall>t \<in> set (st_tables (update_quality_scores st)). \<forall>c \<in> set (columns t).
     Column.quality_score c =
       (if Column.description c \<noteq> [] then 10 else 0) + (if data_type c \<noteq> [] then 10 else 0)
       + (if source_columns c \<noteq> [] then 10 else 0)
     \<and> Column.quality_score c \<in> {0, 10, 20, 30} \<and> Column.quality_score c \<le> 30"
  by (auto simp: update_quality_scores_def columns_update_table_score column_score_cases)

text \<open>
  The catalog \<open>orders_state\<close> has one table with three columns; their scores are
  10, 10 and 20.
\<close>

theorem column_score_range_witness:
  "update_table_score orders_table \<in> set (st_tables (update_quality_scores orders_state))
   \<and> last (columns (update_table_score orders_table))
       \<in> set (columns (update_table_score orders_table))
   \<and> Column.quality_score (last (columns (update_table_score orders_table))) = 20
   \<and> Column.quality_score (last (columns (update_table_score orders_table))) \<in> {0, 10, 20, 30}"
proof -
  have t: "update_table_score orders_table \<in> set (st_tables (update_quality_scores orders_state))"
    by (simp add: orders_state_updated)
  have c: "last (columns (update_table_score orders_table))
             \<in> set (columns (update_table_score orders_table))"
    by (simp add: orders_table_columns_updated)
  from column_score_range [of orders_state] t c
  have "Column.quality_score (last (columns (update_table_score orders_table))) =
          (if Column.description (last (columns (update_table_score orders_table))) \<noteq> []
           then 10 else 0)
          + (if data_type (last (columns (update_table_score orders_table))) \<noteq> [] then 10 else 0)
          + (if source_columns (last (columns (update_table_score orders_table))) \<noteq> []
             then 10 else 0)
        \<and> Column.quality_score (last (columns (update_table_score orders_table))) \<in> {0, 10, 20, 30}"
    by blast
  then show ?thesis
    using t c by (simp add: orders_table_columns_updated Column_init_def)
qed

text \<open>
  C2 as stated: the score of a table with columns is the rounded value of the
  formula. For \<open>orders_table\<close> the formula gives \<open>40 / 3 * 0.8 + 20 = 30.67\<close>; the
  code stores 30, rounding to the nearest integer gives 31.
\<close>

theorem table_score_rounding_counterexample:
  "map Table.quality_score (st_tables (update_quality_scores orders_state)) = [30]
   \<and> map spec_table_score (st_tables (update_quality_scores orders_state)) = [31]"
  by (simp add: update_quality_scores_def orders_state_def quality_score_update_table_score
      spec_table_score_def map_quality_score_update description_bonus_update avg_def
      orders_table_def Table_init_def Column_init_def column_score_def description_bonus_def
      description_update_table_score columns_update_table_score round_def
      floor_rat_numeral)

text \<open>
  C2, amended: after the recomputation the score of a table with at least one column
  is \<open>min(100, floor(avg(column_scores) * 0.8 + (20 if description else 0)))\<close>, the
  fractional part being dropped, not rounded; the score of a table without columns is
  20 if the description is non-empty, else 0.
\<close>

theorem table_score_truncated:
  "\<forall>t \<in> set (st_tables (update_quality_scores st)).
     Table.quality_score t = truncated_table_score t"
  by (auto simp: update_quality_scores_def update_table_score_floor)

theorem table_score_truncated_witness:
  "update_table_score orders_table \<in> set (st_tables (update_quality_scores orders_state))
   \<and> Table.quality_score (update_table_score orders_table) = 30
   \<and> truncated_table_score (update_table_score orders_table) = 30"
proof -
  have t: "update_table_score orders_table \<in> set (st_tables (update_quality_scores orders_state))"
    by (simp add: orders_state_updated)
  have q: "Table.quality_score (update_table_score orders_table) = 30"
    by (simp add: quality_score_update_table_score orders_table_def Table_init_def
        Column_init_def column_score_def description_bonus_def floor_rat_numeral)
  from table_score_truncated [of orders_state] t
  have "Table.quality_score (update_table_score orders_table)
          = truncated_table_score (update_table_score orders_table)"
    by blast
  with t q show ?thesis by simp
qed

section \<open>Properties of the search\<close>

text \<open>
  Each loop only appends, so the three result lists are the matches in input order.
\<close>

lemma fold_search_column:
  "fold (search_column lower q t) cs r =
     r\<lparr>column_results :=
         column_results r @ map (column_result t) (filter (column_matches lower q) cs)\<rparr>"
  by (induction cs arbitrary: r) (simp_all add: search_column_def)

lemma fold_search_table:
  "fold (search_table lower q) ts r =
     r\<lparr>table_results := table_results r @ map table_result (filter (table_matches lower q) ts),
       column_results := column_results r
         @ concat (map (\<lambda>t. map (column_result t) (filter (column_matches lower q) (columns t)))
                     ts)\<rparr>"
  by (induction ts arbitrary: r) (simp_all add: search_table_def fold_search_column)

lemma fold_search_transformation:
  "fold (search_transformation lower q) ts r =
     r\<lparr>transformation_results := transformation_results r
         @ map transformation_result (filter (transformation_matches lower q) ts)\<rparr>"
  by (induction ts arbitrary: r) (simp_all add: search_transformation_def)

lemma search_lineage_filter:
  "search_lineage lower query tables transformations =
     \<lparr>table_results = map table_result (filter (table_matches lower (lower query)) tables),
      column_results =
        concat (map (\<lambda>t. map (column_result t)
                            (filter (column_matches lower (lower query)) (columns t)))
                  tables),
      transformation_results =
        map transformation_result
          (filter (transformation_matches lower (lower query)) transformations)\<rparr>"
  by (simp add: search_lineage_def Let_def fold_search_table fold_search_transformation)

lemma py_in_empty: "py_in [] s"
  by (simp add: py_in_def)



text \<open>
  C10. \<^verbatim>\<open>str.lower\<close> maps the empty string to itself. With the empty query every
  test then succeeds (the empty string is part of every string), and nothing in
  \<^verbatim>\<open>search_lineage\<close> checks for an empty query: the results are all tables, all
  columns of all tables and all transformations, in input order.
\<close>

theorem search_empty_query_returns_all:
  assumes "lower [] = []"
  shows "search_lineage lower [] tables transformations =
           \<lparr>table_results = map table_result tables,
            column_results = concat (map (\<lambda>t. map (column_result t) (columns t)) tables),
            transformation_results = map transformation_result transformations\<rparr>"
proof -
  have "table_matches lower [] t" for t
    by (simp add: table_matches_def py_in_empty)
  moreover have "column_matches lower [] c" for c
    by (simp add: column_matches_def py_in_empty)
  moreover have "transformation_matches lower [] t" for t
    by (simp add: transformation_matches_def py_in_empty)
  ultimately show ?thesis
    using assms by (simp add: search_lineage_filter)
qed

theorem search_empty_query_returns_all_witness:
  "ascii_lower [] = []
   \<and> search_lineage ascii_lower [] [orders_table] [enrich_transformation] =
       \<lparr>table_results = [table_result orders_table],
        column_results = map (column_result orders_table) (columns orders_table),
        transformation_results = [transformation_result enrich_transformation]\<rparr>
   \<and> length (columns orders_table) = 3"
proof -
  have h: "ascii_lower [] = []"
    by (simp add: ascii_lower_def)
  have n: "length (columns orders_table) = 3"
    by (simp add: orders_table_def Table_init_def)
  from search_empty_query_returns_all
    [where lower = ascii_lower and tables = "[orders_table]"
       and transformations = "[enrich_transformation]"] h n
  show ?thesis by simp
qed

section \<open>Properties of the lineage graph\<close>

subsection \<open>The graph operations\<close>

lemma nodes_add_node:
  "nodes (add_node G n a) = AList.update n (dict_update (node_attrs G n) a) (nodes G)"
  by (simp add: add_node_def)

lemma edges_add_node [simp]: "edges (add_node G n a) = edges G"
  by (simp add: add_node_def)

lemma has_node_add_node [simp]: "has_node (add_node G n a) m \<longleftrightarrow> m = n \<or> has_node G m"
  by (auto simp: has_node_def add_node_def dom_update)

lemma edge_attrs_add_node [simp]: "edge_attrs (add_node G n a) u v = edge_attrs G u v"
  by (simp add: edge_attrs_def)

lemma has_node_add_edge [simp]:
  "has_node (add_edge G u v a) m \<longleftrightarrow> m = u \<or> m = v \<or> has_node G m"
  by (auto simp: add_edge_def Let_def has_node_def add_node_def dom_update)

lemma nodes_add_edge:
  "has_node G u \<Longrightarrow> has_node G v \<Longrightarrow> nodes (add_edge G u v a) = nodes G"
  by (simp add: add_edge_def)

lemma edges_add_edge:
  "edges (add_edge G u v a) = AList.update (u, v) (dict_update (edge_attrs G u v) a) (edges G)"
  by (simp add: add_edge_def Let_def)

lemma add_edge_existing:
  "has_node G u \<Longrightarrow> has_node G v \<Longrightarrow>
   add_edge G u v a = G\<lparr>edges := AList.update (u, v) (dict_update (edge_attrs G u v) a) (edges G)\<rparr>"
  by (simp add: add_edge_def)

lemma dict_update_Nil [simp]: "dict_update d [] = d"
  by (simp add: dict_update_def)

lemma dict_update_Cons [simp]:
  "dict_update d ((k, v) # new) = dict_update (AList.update k v d) new"
  by (simp add: dict_update_def)

lemma dict_update_table_node_attrs [simp]:
  "dict_update [] (table_node_attrs t) = table_node_attrs t"
  by (simp add: table_node_attrs_def)

lemma dict_update_column_node_attrs [simp]:
  "dict_update [] (column_node_attrs t) = column_node_attrs t"
  by (simp add: column_node_attrs_def)

lemma dict_update_transformation_node_attrs [simp]:
  "dict_update [] (transformation_node_attrs t) = transformation_node_attrs t"
  by (simp add: transformation_node_attrs_def)

lemma dict_update_table_edge_attrs [simp]:
  "dict_update [] (table_edge_attrs t) = table_edge_attrs t"
  by (simp add: table_edge_attrs_def)

lemma dict_update_table_edge_attrs_again:
  "map fst d = [''label'', ''title''] \<Longrightarrow> dict_update d (table_edge_attrs t) = table_edge_attrs t"
proof -
  assume "map fst d = [''label'', ''title'']"
  then obtain x y where "d = [(''label'', x), (''title'', y)]"
    by (auto simp: map_eq_Cons_conv)
  then show ?thesis by (simp add: table_edge_attrs_def)
qed

lemma node_attrs_empty [simp]: "node_attrs empty_graph n = []"
  by (simp add: node_attrs_def empty_graph_def)

lemma node_attrs_absent:
  assumes "\<not> has_node G n"
  shows "node_attrs G n = []"
proof -
  have "map_of (nodes G) n = None"
    using assms by (simp add: has_node_def map_of_eq_None_iff)
  then show ?thesis by (simp add: node_attrs_def)
qed

lemma edge_attrs_absent:
  assumes "(u, v) \<notin> fst ` set (edges G)"
  shows "edge_attrs G u v = []"
proof -
  have "map_of (edges G) (u, v) = None"
    using assms by (simp add: map_of_eq_None_iff)
  then show ?thesis by (simp add: edge_attrs_def)
qed

subsection \<open>Focus on a table in column-level mode\<close>

text \<open>
  C1 as stated: with the focus on \<open>A\<close> only the node \<open>A\<close> remains and there is no edge.
  The graph of \<open>table_A\<close>, \<open>table_B\<close> and \<open>transformation_T\<close> has three nodes and one
  edge: the focus keeps the table \<open>A\<close>, line 257 then adds the columns of every kept
  table, and line 278 adds the node of every transformation whatever the focus is.
\<close>

theorem focus_on_table_counterexample:
  "map fst (nodes (create_lineage_graph [table_A, table_B] [transformation_T] True (Some ''A'')))
     = [''A'', ''A.x'', ''T'']
   \<and> map fst (edges (create_lineage_graph [table_A, table_B] [transformation_T] True (Some ''A'')))
     = [(''A'', ''A.x'')]
   \<and> \<not> (map fst (nodes (create_lineage_graph [table_A, table_B] [transformation_T] True
                          (Some ''A''))) = [''A'']
        \<and> edges (create_lineage_graph [table_A, table_B] [transformation_T] True (Some ''A''))
            = [])"
  by code_simp

text \<open>
  C1, amended: in column-level mode with tables \<open>A\<close> and \<open>B\<close>, the columns \<open>A.x\<close> and
  \<open>B.y\<close>, one transformation \<open>T\<close> whose only mapping is \<open>A.x\<close> to \<open>B.y\<close>, and the focus
  on \<open>A\<close>, the graph has exactly the nodes \<open>A\<close>, \<open>A.x\<close> and \<open>T\<close> and exactly one edge,
  the containment edge from \<open>A\<close> to \<open>A.x\<close>; \<open>B\<close>, \<open>B.y\<close> and both edges of the mapping
  are excluded. The five identifiers are taken to be different.
\<close>

theorem focus_on_table_keeps_columns_and_transformation:
  assumes "columns ta = [x]" and "columns tb = [y]" and "column_mappings t = [m]"
    and "source_table m = Table.name ta" and "source_column m = Column.name x"
    and "target_table m = Table.name tb" and "target_column m = Column.name y"
    and "Table.name ta \<noteq> []"
    and "distinct [Table.name ta, column_node_id ta x, Table.name tb, column_node_id tb y,
                   Transformation.name t]"
  shows "create_lineage_graph [ta, tb] [t] True (Some (Table.name ta)) =
           \<lparr>nodes = [(Table.name ta, table_node_attrs ta),
                     (column_node_id ta x, column_node_attrs x),
                     (Transformation.name t, transformation_node_attrs t)],
            edges = [((Table.name ta, column_node_id ta x), [])]\<rparr>"
proof -
  let ?G0 = "fold (add_table True (Some (Table.name ta))) [ta, tb] empty_graph"
  have skip_b: "skipped_by_focus (Some (Table.name ta)) tb"
    using assms by (auto simp: skipped_by_focus_def)
  have keep_a: "\<not> skipped_by_focus (Some (Table.name ta)) ta"
    by (simp add: skipped_by_focus_def)
  have ne: "column_node_id ta x \<noteq> Table.name ta" "Transformation.name t \<noteq> Table.name ta"
    "Transformation.name t \<noteq> column_node_id ta x" "column_node_id tb y \<noteq> Table.name ta"
    "column_node_id tb y \<noteq> column_node_id ta x" "column_node_id tb y \<noteq> Transformation.name t"
    using assms(9) by auto
  have G0: "?G0 = \<lparr>nodes = [(Table.name ta, table_node_attrs ta),
                             (column_node_id ta x, column_node_attrs x)],
                    edges = [((Table.name ta, column_node_id ta x), [])]\<rparr>"
    using assms(1) ne skip_b keep_a
    by (simp add: add_table_def add_column_node_def Let_def add_node_def add_edge_def
        has_node_def node_attrs_def edge_attrs_def empty_graph_def)
  have tgt: "target_id m = column_node_id tb y"
    using assms by (simp add: target_id_def column_node_id_def)
  show ?thesis
    unfolding create_lineage_graph_def G0
    using assms(3) ne tgt
    by (simp add: add_transformation_def Let_def add_mapping_edges_def add_node_def
        has_node_def node_attrs_def)
qed

theorem focus_on_table_keeps_columns_and_transformation_witness:
  "columns table_A = [Column_init ''x'' ''int'' [] []]
   \<and> columns table_B = [Column_init ''y'' ''int'' [] [''A.x'']]
   \<and> column_mappings transformation_T = [mapping_xy]
   \<and> source_table mapping_xy = Table.name table_A
   \<and> source_column mapping_xy = Column.name (Column_init ''x'' ''int'' [] [])
   \<and> target_table mapping_xy = Table.name table_B
   \<and> target_column mapping_xy = Column.name (Column_init ''y'' ''int'' [] [''A.x''])
   \<and> Table.name table_A \<noteq> []
   \<and> distinct [Table.name table_A, column_node_id table_A (Column_init ''x'' ''int'' [] []),
               Table.name table_B, column_node_id table_B (Column_init ''y'' ''int'' [] [''A.x'']),
               Transformation.name transformation_T]
   \<and> create_lineage_graph [table_A, table_B] [transformation_T] True (Some (Table.name table_A)) =
       \<lparr>nodes = [(Table.name table_A, table_node_attrs table_A),
                 (column_node_id table_A (Column_init ''x'' ''int'' [] []),
                  column_node_attrs (Column_init ''x'' ''int'' [] [])),
                 (Transformation.name transformation_T,
                  transformation_node_attrs transformation_T)],
        edges = [((Table.name table_A, column_node_id table_A (Column_init ''x'' ''int'' [] [])),
                  [])]\<rparr>"
proof -
  have h1: "columns table_A = [Column_init ''x'' ''int'' [] []]"
    and h2: "columns table_B = [Column_init ''y'' ''int'' [] [''A.x'']]"
    and h3: "column_mappings transformation_T = [mapping_xy]"
    and h4: "source_table mapping_xy = Table.name table_A"
    and h5: "source_column mapping_xy = Column.name (Column_init ''x'' ''int'' [] [])"
    and h6: "target_table mapping_xy = Table.name table_B"
    and h7: "target_column mapping_xy = Column.name (Column_init ''y'' ''int'' [] [''A.x''])"
    and h8: "Table.name table_A \<noteq> []"
    by (simp_all add: table_A_def table_B_def transformation_T_def mapping_xy_def Table_init_def
        Column_init_def Transformation_init_def ColumnMapping_init_def)
  have h9: "distinct [Table.name table_A, column_node_id table_A (Column_init ''x'' ''int'' [] []),
               Table.name table_B, column_node_id table_B (Column_init ''y'' ''int'' [] [''A.x'']),
               Transformation.name transformation_T]"
    by (simp add: table_A_def table_B_def transformation_T_def Table_init_def
        Column_init_def Transformation_init_def column_node_id_def)
  from focus_on_table_keeps_columns_and_transformation [OF h1 h2 h3 h4 h5 h6 h7 h8 h9]
    h1 h2 h3 h4 h5 h6 h7 h8 h9
  show ?thesis by simp
qed

subsection \<open>Table-level mode\<close>

text \<open>
  C6. In table-level mode with three tables of different names and one
  transformation from the first two to the third, the graph has the three table
  nodes and no other node, and exactly the two edges from each input to the output,
  both labelled with the transformation's name.
\<close>

theorem table_level_two_inputs_one_output:
  assumes "input_tables t = [Table.name ta, Table.name tb]"
    and "output_tables t = [Table.name tc]"
    and "distinct [Table.name ta, Table.name tb, Table.name tc]"
  shows "create_lineage_graph [ta, tb, tc] [t] False None =
           \<lparr>nodes = [(Table.name ta, table_node_attrs ta),
                     (Table.name tb, table_node_attrs tb),
                     (Table.name tc, table_node_attrs tc)],
            edges = [((Table.name ta, Table.name tc),
                      [(''label'', Str (Transformation.name t)),
                       (''title'', Str (Transformation.description t))]),
                     ((Table.name tb, Table.name tc),
                      [(''label'', Str (Transformation.name t)),
                       (''title'', Str (Transformation.description t))])]\<rparr>"
proof -
  have ne: "Table.name tb \<noteq> Table.name ta" "Table.name tc \<noteq> Table.name ta"
    "Table.name tc \<noteq> Table.name tb"
    using assms(3) by auto
  let ?G0 = "fold (add_table False None) [ta, tb, tc] empty_graph"
  have G0: "?G0 = \<lparr>nodes = [(Table.name ta, table_node_attrs ta),
                             (Table.name tb, table_node_attrs tb),
                             (Table.name tc, table_node_attrs tc)],
                    edges = []\<rparr>"
    using ne
    by (simp add: add_table_def skipped_by_focus_def Let_def add_node_def node_attrs_def
        empty_graph_def)
  show ?thesis
    unfolding create_lineage_graph_def G0
    using assms(1,2) ne
    by (simp add: add_transformation_def add_table_edges_def add_table_edge_def has_node_def
        add_edge_def edge_attrs_def Let_def table_edge_attrs_def)
qed

theorem table_level_two_inputs_one_output_witness:
  "input_tables transformation_merge = [Table.name table_A, Table.name table_B]
   \<and> output_tables transformation_merge = [Table.name table_C]
   \<and> distinct [Table.name table_A, Table.name table_B, Table.name table_C]
   \<and> map fst (nodes (create_lineage_graph [table_A, table_B, table_C] [transformation_merge]
                      False None)) = [''A'', ''B'', ''C'']
   \<and> edges (create_lineage_graph [table_A, table_B, table_C] [transformation_merge] False None) =
       [((''A'', ''C''), [(''label'', Str ''merge''), (''title'', Str ''Merge'')]),
        ((''B'', ''C''), [(''label'', Str ''merge''), (''title'', Str ''Merge'')])]"
proof -
  have h1: "input_tables transformation_merge = [Table.name table_A, Table.name table_B]"
    and h2: "output_tables transformation_merge = [Table.name table_C]"
    and h3: "distinct [Table.name table_A, Table.name table_B, Table.name table_C]"
    by (simp_all add: table_A_def table_B_def table_C_def transformation_merge_def
        Table_init_def Transformation_init_def)
  have names: "Table.name table_A = ''A''" "Table.name table_B = ''B''"
    "Table.name table_C = ''C''" "Transformation.name transformation_merge = ''merge''"
    "Transformation.description transformation_merge = ''Merge''"
    by (simp_all add: table_A_def table_B_def table_C_def transformation_merge_def
        Table_init_def Transformation_init_def)
  from table_level_two_inputs_one_output [OF h1 h2 h3] h1 h2 h3
  show ?thesis by (simp add: names)
qed

text \<open>
  C3 as stated: two transformations over the same pair of tables give two parallel
  edges. \<open>T1\<close> and \<open>T2\<close> both lead from \<open>A\<close> to \<open>B\<close>; the graph has one edge from \<open>A\<close>
  to \<open>B\<close>, and it carries the label of \<open>T2\<close>: the label of \<open>T1\<close> is overwritten.
\<close>

theorem parallel_edges_counterexample:
  "edges (create_lineage_graph [table_A, table_B] [transformation_T1, transformation_T2]
            False None)
     = [((''A'', ''B''), [(''label'', Str ''T2''), (''title'', Str ''Second load'')])]
   \<and> length (edges (create_lineage_graph [table_A, table_B] [transformation_T1, transformation_T2]
                      False None)) \<noteq> 2"
  by code_simp

text \<open>
  In table-level mode the loop over the transformations never adds a node, and each
  \<^verbatim>\<open>add_edge\<close> call sets the dictionary of its pair to the label and the title of the
  current transformation.
\<close>

lemma set_alist_update: "e \<in> set (AList.update k v al) \<Longrightarrow> e = (k, v) \<or> e \<in> set al"
  by (induction al) (auto split: if_splits)

lemma filter_key_distinct:
  "distinct (map fst xs) \<Longrightarrow> map_of xs k = Some v \<Longrightarrow> filter (\<lambda>e. fst e = k) xs = [(k, v)]"
proof (induction xs)
  case Nil
  then show ?case by simp
next
  case (Cons x xs)
  show ?case
  proof (cases "fst x = k")
    case True
    with Cons.prems have "k \<notin> fst ` set xs" and "x = (k, v)"
      by (auto simp: prod_eq_iff)
    then have "filter (\<lambda>e. fst e = k) xs = []"
      by (auto simp: filter_empty_conv)
    with \<open>x = (k, v)\<close> show ?thesis by simp
  next
    case False
    with Cons show ?thesis by simp
  qed
qed

lemma has_node_cong: "nodes G = nodes G' \<Longrightarrow> has_node G = has_node G'"
  by (simp add: has_node_def fun_eq_iff)

lemma edge_attrs_table_level:
  assumes "table_level_edges G"
  shows "dict_update (edge_attrs G i o') (table_edge_attrs t) = table_edge_attrs t"
proof (cases "map_of (edges G) (i, o')")
  case None
  then show ?thesis by (simp add: edge_attrs_def)
next
  case (Some a)
  then have "((i, o'), a) \<in> set (edges G)"
    by (rule map_of_SomeD)
  with assms have "map fst a = [''label'', ''title'']"
    by (auto simp: table_level_edges_def list_all_iff)
  with Some show ?thesis
    by (simp add: edge_attrs_def dict_update_table_edge_attrs_again)
qed

lemma add_table_edge_eq:
  assumes "table_level_edges G"
  shows "add_table_edge t i o' G =
           (if has_node G i \<and> has_node G o'
            then G\<lparr>edges := AList.update (i, o') (table_edge_attrs t) (edges G)\<rparr>
            else G)"
  using edge_attrs_table_level [OF assms]
  by (simp add: add_table_edge_def add_edge_existing)

lemma nodes_add_table_edge:
  "table_level_edges G \<Longrightarrow> nodes (add_table_edge t i o' G) = nodes G"
  by (simp add: add_table_edge_eq)

lemma table_level_edges_add_table_edge:
  "table_level_edges G \<Longrightarrow> table_level_edges (add_table_edge t i o' G)"
  by (auto simp: add_table_edge_eq table_level_edges_def list_all_iff table_edge_attrs_def
      dest!: set_alist_update)

lemma distinct_add_table_edge:
  "table_level_edges G \<Longrightarrow> distinct (map fst (edges G)) \<Longrightarrow>
   distinct (map fst (edges (add_table_edge t i o' G)))"
  by (simp add: add_table_edge_eq distinct_update)

lemma map_of_add_table_edge:
  "table_level_edges G \<Longrightarrow>
   map_of (edges (add_table_edge t i o' G)) k =
     (if k = (i, o') \<and> has_node G i \<and> has_node G o' then Some (table_edge_attrs t)
      else map_of (edges G) k)"
  by (simp add: add_table_edge_eq update_conv')

lemma fold_add_table_edge:
  "table_level_edges G \<Longrightarrow>
   nodes (fold (add_table_edge t i) outs G) = nodes G
   \<and> table_level_edges (fold (add_table_edge t i) outs G)
   \<and> (distinct (map fst (edges G)) \<longrightarrow>
        distinct (map fst (edges (fold (add_table_edge t i) outs G))))
   \<and> map_of (edges (fold (add_table_edge t i) outs G)) k =
       (if fst k = i \<and> snd k \<in> set outs \<and> has_node G i \<and> has_node G (snd k)
        then Some (table_edge_attrs t) else map_of (edges G) k)"
proof (induction outs arbitrary: G)
  case Nil
  then show ?case by simp
next
  case (Cons o' outs)
  let ?G' = "add_table_edge t i o' G"
  have tl: "table_level_edges ?G'"
    using Cons.prems by (rule table_level_edges_add_table_edge)
  have nd: "nodes ?G' = nodes G"
    using Cons.prems by (rule nodes_add_table_edge)
  have hn: "has_node ?G' = has_node G"
    using nd by (rule has_node_cong)
  have ds: "distinct (map fst (edges G)) \<longrightarrow> distinct (map fst (edges ?G'))"
    using Cons.prems by (simp add: distinct_add_table_edge)
  have mp: "map_of (edges ?G') k =
     (if k = (i, o') \<and> has_node G i \<and> has_node G o' then Some (table_edge_attrs t)
      else map_of (edges G) k)"
    using Cons.prems by (rule map_of_add_table_edge)
  from Cons.IH [OF tl] nd hn ds mp show ?case
    by (auto simp: prod_eq_iff)
qed

lemma fold_add_table_edges:
  "table_level_edges G \<Longrightarrow>
   nodes (fold (add_table_edges t) ins G) = nodes G
   \<and> table_level_edges (fold (add_table_edges t) ins G)
   \<and> (distinct (map fst (edges G)) \<longrightarrow>
        distinct (map fst (edges (fold (add_table_edges t) ins G))))
   \<and> map_of (edges (fold (add_table_edges t) ins G)) k =
       (if fst k \<in> set ins \<and> snd k \<in> set (output_tables t)
           \<and> has_node G (fst k) \<and> has_node G (snd k)
        then Some (table_edge_attrs t) else map_of (edges G) k)"
proof (induction ins arbitrary: G)
  case Nil
  then show ?case by simp
next
  case (Cons i ins)
  let ?G' = "add_table_edges t i G"
  note step = fold_add_table_edge [OF Cons.prems, of t i "output_tables t" k,
      folded add_table_edges_def]
  have tl: "table_level_edges ?G'" and nd: "nodes ?G' = nodes G"
    using step by simp_all
  have hn: "has_node ?G' = has_node G"
    using nd by (rule has_node_cong)
  from Cons.IH [OF tl] step hn show ?case
    by auto
qed

lemma add_transformation_table_level:
  "table_level_edges G \<Longrightarrow>
   nodes (add_transformation False t G) = nodes G
   \<and> table_level_edges (add_transformation False t G)
   \<and> (distinct (map fst (edges G)) \<longrightarrow>
        distinct (map fst (edges (add_transformation False t G))))
   \<and> map_of (edges (add_transformation False t G)) k =
       (if fst k \<in> set (input_tables t) \<and> snd k \<in> set (output_tables t)
           \<and> has_node G (fst k) \<and> has_node G (snd k)
        then Some (table_edge_attrs t) else map_of (edges G) k)"
  using fold_add_table_edges [of G t "input_tables t" k]
  by (simp add: add_transformation_def)

lemma fold_add_transformation_table_level:
  "table_level_edges G \<Longrightarrow>
   nodes (fold (add_transformation False) ts G) = nodes G
   \<and> table_level_edges (fold (add_transformation False) ts G)
   \<and> (distinct (map fst (edges G)) \<longrightarrow>
        distinct (map fst (edges (fold (add_transformation False) ts G))))
   \<and> ((\<forall>t \<in> set ts. fst k \<notin> set (input_tables t) \<or> snd k \<notin> set (output_tables t)) \<longrightarrow>
        map_of (edges (fold (add_transformation False) ts G)) k = map_of (edges G) k)"
proof (induction ts arbitrary: G)
  case Nil
  then show ?case by simp
next
  case (Cons t ts)
  note step = add_transformation_table_level [OF Cons.prems, of t k]
  have tl: "table_level_edges (add_transformation False t G)"
    using step by simp
  from Cons.IH [OF tl] step show ?case
    by auto
qed

lemma edges_add_table_False [simp]: "edges (add_table False focus t G) = edges G"
  by (simp add: add_table_def Let_def)

lemma edges_fold_add_table_False:
  "edges (fold (add_table False focus) ts G) = edges G"
  by (induction ts arbitrary: G) simp_all

lemma table_level_edges_tables:
  "table_level_edges (fold (add_table False focus) tables empty_graph)"
  "distinct (map fst (edges (fold (add_table False focus) tables empty_graph)))"
  by (simp_all add: table_level_edges_def edges_fold_add_table_False empty_graph_def)

text \<open>
  C3, amended: in table-level mode the graph is a simple directed graph with at most
  one edge per ordered pair of tables. When several transformations produce the same
  (input table, output table) pair, the pair has a single edge, and it carries the
  name and the description of the last of these transformations in the list; the
  labels of the earlier ones are overwritten.
\<close>

theorem table_level_single_edge_last_label:
  assumes "i \<in> set (input_tables t)" and "j \<in> set (output_tables t)"
    and "has_node (create_lineage_graph tables (ts1 @ t # ts2) False focus) i"
    and "has_node (create_lineage_graph tables (ts1 @ t # ts2) False focus) j"
    and "\<forall>t' \<in> set ts2. i \<notin> set (input_tables t') \<or> j \<notin> set (output_tables t')"
  shows "distinct (map fst (edges (create_lineage_graph tables (ts1 @ t # ts2) False focus)))
         \<and> filter (\<lambda>e. fst e = (i, j))
              (edges (create_lineage_graph tables (ts1 @ t # ts2) False focus)) =
             [((i, j), [(''label'', Str (Transformation.name t)),
                        (''title'', Str (Transformation.description t))])]"
proof -
  let ?G0 = "fold (add_table False focus) tables empty_graph"
  let ?G1 = "fold (add_transformation False) ts1 ?G0"
  let ?G2 = "add_transformation False t ?G1"
  let ?G = "create_lineage_graph tables (ts1 @ t # ts2) False focus"
  have G: "?G = fold (add_transformation False) ts2 ?G2"
    by (simp add: create_lineage_graph_def)
  note s1 = fold_add_transformation_table_level [OF table_level_edges_tables(1), of ts1 focus tables "(i, j)"]
  have tl1: "table_level_edges ?G1" and d1: "distinct (map fst (edges ?G1))"
    using s1 table_level_edges_tables(2) by simp_all
  note s2 = add_transformation_table_level [OF tl1, of t "(i, j)"]
  have tl2: "table_level_edges ?G2" and d2: "distinct (map fst (edges ?G2))"
    and n2: "nodes ?G2 = nodes ?G1"
    using s2 d1 by simp_all
  note s3 = fold_add_transformation_table_level [OF tl2, of ts2 "(i, j)"]
  have n3: "nodes ?G = nodes ?G1"
    using s3 n2 by (simp add: G)
  have hn: "has_node ?G1 i" "has_node ?G1 j"
    using assms(3,4) has_node_cong [OF n3] by simp_all
  have m2: "map_of (edges ?G2) (i, j) = Some (table_edge_attrs t)"
    using s2 assms(1,2) hn by simp
  have m3: "map_of (edges ?G) (i, j) = Some (table_edge_attrs t)"
    using s3 assms(5) m2 by (simp add: G)
  have d3: "distinct (map fst (edges ?G))"
    using s3 d2 by (simp add: G)
  from filter_key_distinct [OF d3 m3] d3 show ?thesis
    by (simp add: table_edge_attrs_def)
qed

theorem table_level_single_edge_last_label_witness:
  "''A'' \<in> set (input_tables transformation_T2) \<and> ''B'' \<in> set (output_tables transformation_T2)
   \<and> ''A'' \<in> set (input_tables transformation_T1) \<and> ''B'' \<in> set (output_tables transformation_T1)
   \<and> has_node (create_lineage_graph [table_A, table_B]
                  ([transformation_T1] @ transformation_T2 # []) False None) ''A''
   \<and> has_node (create_lineage_graph [table_A, table_B]
                  ([transformation_T1] @ transformation_T2 # []) False None) ''B''
   \<and> filter (\<lambda>e. fst e = (''A'', ''B''))
        (edges (create_lineage_graph [table_A, table_B]
                  ([transformation_T1] @ transformation_T2 # []) False None)) =
       [((''A'', ''B''), [(''label'', Str ''T2''), (''title'', Str ''Second load'')])]"
proof -
  have h1: "''A'' \<in> set (input_tables transformation_T2)"
    and h2: "''B'' \<in> set (output_tables transformation_T2)"
    and h1': "''A'' \<in> set (input_tables transformation_T1)"
    and h2': "''B'' \<in> set (output_tables transformation_T1)"
    by (simp_all add: transformation_T2_def transformation_T1_def Transformation_init_def)
  have h3: "has_node (create_lineage_graph [table_A, table_B]
                  ([transformation_T1] @ transformation_T2 # []) False None) ''A''"
    and h4: "has_node (create_lineage_graph [table_A, table_B]
                  ([transformation_T1] @ transformation_T2 # []) False None) ''B''"
    by code_simp+
  have h5: "\<forall>t' \<in> set []. ''A'' \<notin> set (input_tables t') \<or> ''B'' \<notin> set (output_tables t')"
    by simp
  have names: "Transformation.name transformation_T2 = ''T2''"
    "Transformation.description transformation_T2 = ''Second load''"
    by (simp_all add: transformation_T2_def Transformation_init_def)
  from table_level_single_edge_last_label [OF h1 h2 h3 h4 h5] h1 h2 h1' h2' h3 h4
  show ?thesis by (simp add: names)
qed

subsection \<open>Mappings with a missing endpoint\<close>

text \<open>
  The test of line 293 and the place of one mapping in the run of the builder.
\<close>

lemma add_mapping_edges_missing:
  "\<not> has_node G (source_id m) \<or> \<not> has_node G (target_id m) \<Longrightarrow> add_mapping_edges t m G = G"
  by (auto simp: add_mapping_edges_def)

lemma create_lineage_graph_at_mapping:
  assumes "column_mappings t = ms1 @ m # ms2"
  shows "create_lineage_graph tables (ts1 @ t # ts2) True focus =
           fold (add_transformation True) ts2
             (fold (add_mapping_edges t) ms2
                (add_mapping_edges t m (graph_before_mapping tables ts1 t ms1 focus)))"
  using assms
  by (simp add: create_lineage_graph_def graph_before_mapping_def add_transformation_def Let_def)

text \<open>
  Which identifiers are nodes, from the input alone. In column-level mode every
  \<^verbatim>\<open>add_edge\<close> call joins nodes that are already there, so the nodes are exactly
  the identifiers of \<open>spec_node_ids\<close>: kept tables, their columns, and the
  transformations processed so far.
\<close>

lemma has_node_add_column_node:
  "has_node G (Table.name t) \<Longrightarrow>
   has_node (add_column_node t c G) n \<longleftrightarrow> n = column_node_id t c \<or> has_node G n"
  by (auto simp: add_column_node_def Let_def)

lemma has_node_fold_add_column_node:
  "has_node G (Table.name t) \<Longrightarrow>
   has_node (fold (add_column_node t) cs G) n \<longleftrightarrow>
     n \<in> set (map (column_node_id t) cs) \<or> has_node G n"
proof (induction cs arbitrary: G)
  case Nil
  then show ?case by simp
next
  case (Cons c cs)
  have "has_node (add_column_node t c G) (Table.name t)"
    using Cons.prems by (simp add: has_node_add_column_node)
  from Cons.IH [OF this] Cons.prems show ?case
    by (auto simp: has_node_add_column_node)
qed

lemma has_node_add_table:
  "has_node (add_table True focus t G) n \<longleftrightarrow>
     (\<not> skipped_by_focus focus t \<and> (n = Table.name t \<or> n \<in> set (map (column_node_id t) (columns t))))
     \<or> has_node G n"
  by (auto simp: add_table_def Let_def has_node_fold_add_column_node)

lemma has_node_fold_add_table:
  "has_node (fold (add_table True focus) ts G) n \<longleftrightarrow>
     n \<in> set (map Table.name (filter (\<lambda>t. \<not> skipped_by_focus focus t) ts))
     \<or> n \<in> set (concat (map (\<lambda>t. map (column_node_id t) (columns t))
                            (filter (\<lambda>t. \<not> skipped_by_focus focus t) ts)))
     \<or> has_node G n"
  by (induction ts arbitrary: G) (auto simp: has_node_add_table)

lemma has_node_add_mapping_edges_iff:
  "has_node G (Transformation.name t) \<Longrightarrow>
   has_node (add_mapping_edges t m G) n \<longleftrightarrow> has_node G n"
  by (auto simp: add_mapping_edges_def Let_def)

lemma has_node_fold_add_mapping_edges_iff:
  "has_node G (Transformation.name t) \<Longrightarrow>
   has_node (fold (add_mapping_edges t) ms G) n \<longleftrightarrow> has_node G n"
  by (induction ms arbitrary: G) (simp_all add: has_node_add_mapping_edges_iff)

lemma has_node_fold_add_input_edge_iff:
  "has_node G (Transformation.name t) \<Longrightarrow>
   has_node (fold (add_input_edge t) xs G) n \<longleftrightarrow> has_node G n"
  by (induction xs arbitrary: G) (auto simp: add_input_edge_def)

lemma has_node_fold_add_output_edge_iff:
  "has_node G (Transformation.name t) \<Longrightarrow>
   has_node (fold (add_output_edge t) xs G) n \<longleftrightarrow> has_node G n"
  by (induction xs arbitrary: G) (auto simp: add_output_edge_def)

lemma has_node_add_transformation_iff:
  "has_node (add_transformation True t G) n \<longleftrightarrow> n = Transformation.name t \<or> has_node G n"
  by (simp add: add_transformation_def Let_def has_node_fold_add_mapping_edges_iff
      has_node_fold_add_input_edge_iff has_node_fold_add_output_edge_iff)

lemma has_node_fold_add_transformation_iff:
  "has_node (fold (add_transformation True) ts G) n \<longleftrightarrow>
     n \<in> set (map Transformation.name ts) \<or> has_node G n"
  by (induction ts arbitrary: G) (auto simp: has_node_add_transformation_iff)

lemma has_node_empty_graph [simp]: "\<not> has_node empty_graph n"
  by (simp add: has_node_def empty_graph_def)

lemma has_node_create_lineage_graph:
  "has_node (create_lineage_graph tables ts True focus) n \<longleftrightarrow>
     n \<in> set (spec_node_ids tables ts focus)"
  by (auto simp: create_lineage_graph_def spec_node_ids_def Let_def
      has_node_fold_add_transformation_iff has_node_fold_add_table)

lemma has_node_graph_before_mapping:
  "has_node (graph_before_mapping tables ts1 t ms1 focus) n \<longleftrightarrow>
     n \<in> set (spec_node_ids tables (ts1 @ [t]) focus)"
proof -
  have "has_node (graph_before_mapping tables ts1 t ms1 focus) n \<longleftrightarrow>
          n = Transformation.name t \<or> has_node (create_lineage_graph tables ts1 True focus) n"
    by (simp add: graph_before_mapping_def has_node_fold_add_mapping_edges_iff)
  then show ?thesis
    by (auto simp: has_node_create_lineage_graph spec_node_ids_def Let_def)
qed

text \<open>Both ends of every edge of the finished graph are nodes.\<close>

lemma edges_join_nodes_empty: "edges_join_nodes empty_graph"
  by (simp add: edges_join_nodes_def empty_graph_def)

lemma edges_join_nodes_add_node:
  "edges_join_nodes G \<Longrightarrow> edges_join_nodes (add_node G n a)"
  by (auto simp: edges_join_nodes_def list_all_iff)

lemma edges_join_nodes_add_edge:
  "edges_join_nodes G \<Longrightarrow> edges_join_nodes (add_edge G u v a)"
  by (auto simp: edges_join_nodes_def list_all_iff edges_add_edge dest!: set_alist_update)

lemma edges_join_nodes_fold:
  "(\<And>x G. edges_join_nodes G \<Longrightarrow> edges_join_nodes (f x G)) \<Longrightarrow>
   edges_join_nodes G \<Longrightarrow> edges_join_nodes (fold f xs G)"
  by (induction xs arbitrary: G) simp_all

lemma edges_join_nodes_add_column_node:
  "edges_join_nodes G \<Longrightarrow> edges_join_nodes (add_column_node t c G)"
  by (simp add: add_column_node_def Let_def edges_join_nodes_add_node edges_join_nodes_add_edge)

lemma edges_join_nodes_add_table:
  "edges_join_nodes G \<Longrightarrow> edges_join_nodes (add_table b focus t G)"
  by (simp add: add_table_def Let_def edges_join_nodes_add_node edges_join_nodes_fold
      edges_join_nodes_add_column_node)

lemma edges_join_nodes_add_mapping_edges:
  "edges_join_nodes G \<Longrightarrow> edges_join_nodes (add_mapping_edges t m G)"
  by (simp add: add_mapping_edges_def Let_def edges_join_nodes_add_edge)

lemma edges_join_nodes_add_input_edge:
  "edges_join_nodes G \<Longrightarrow> edges_join_nodes (add_input_edge t x G)"
  by (simp add: add_input_edge_def edges_join_nodes_add_edge)

lemma edges_join_nodes_add_output_edge:
  "edges_join_nodes G \<Longrightarrow> edges_join_nodes (add_output_edge t x G)"
  by (simp add: add_output_edge_def edges_join_nodes_add_edge)

lemma edges_join_nodes_add_table_edge:
  "edges_join_nodes G \<Longrightarrow> edges_join_nodes (add_table_edge t i j G)"
  by (simp add: add_table_edge_def edges_join_nodes_add_edge)

lemma edges_join_nodes_add_transformation:
  "edges_join_nodes G \<Longrightarrow> edges_join_nodes (add_transformation b t G)"
  by (simp add: add_transformation_def Let_def add_table_edges_def edges_join_nodes_add_node
      edges_join_nodes_fold edges_join_nodes_add_mapping_edges edges_join_nodes_add_input_edge
      edges_join_nodes_add_output_edge edges_join_nodes_add_table_edge)

lemma edges_join_nodes_create_lineage_graph:
  "edges_join_nodes (create_lineage_graph tables ts b focus)"
  by (simp add: create_lineage_graph_def edges_join_nodes_fold edges_join_nodes_add_table
      edges_join_nodes_add_transformation edges_join_nodes_empty)

lemma edge_ends_are_nodes:
  "(u, v) \<in> set (map fst (edges (create_lineage_graph tables ts b focus))) \<Longrightarrow>
   has_node (create_lineage_graph tables ts b focus) u
   \<and> has_node (create_lineage_graph tables ts b focus) v"
  using edges_join_nodes_create_lineage_graph [of tables ts b focus]
  by (auto simp: edges_join_nodes_def list_all_iff)

text \<open>
  C5. Take any mapping of any transformation, and let its source identifier or its
  target identifier be none of the identifiers materialised when the loop reaches it
  (the kept tables, their columns, the transformations up to the current one): the
  referenced entity does not exist, or the focus removed it. Then the loop body for
  this mapping (lines 289-295) leaves the graph as it was, whether one endpoint is
  missing or both: it adds neither the edge from the source to the transformation nor
  the edge from the transformation to the target, and the finished graph is the one
  built with this iteration left out. An endpoint that is none of the identifiers of
  the whole input has no edge to or from the transformation in the finished graph.
  The builder is total: it has no failing branch.
\<close>

theorem dangling_mapping_adds_no_edges:
  assumes "column_mappings t = ms_before @ m # ms_after"
    and "source_id m \<notin> set (spec_node_ids tables (ts_before @ [t]) focus)
         \<or> target_id m \<notin> set (spec_node_ids tables (ts_before @ [t]) focus)"
  shows "add_mapping_edges t m (graph_before_mapping tables ts_before t ms_before focus)
           = graph_before_mapping tables ts_before t ms_before focus
         \<and> create_lineage_graph tables (ts_before @ t # ts_after) True focus =
             fold (add_transformation True) ts_after
               (fold (add_mapping_edges t) ms_after (graph_before_mapping tables ts_before t ms_before focus))
         \<and> (source_id m \<notin> set (spec_node_ids tables (ts_before @ t # ts_after) focus) \<longrightarrow>
              (source_id m, Transformation.name t)
                \<notin> set (map fst (edges (create_lineage_graph tables (ts_before @ t # ts_after) True focus))))
         \<and> (target_id m \<notin> set (spec_node_ids tables (ts_before @ t # ts_after) focus) \<longrightarrow>
              (Transformation.name t, target_id m)
                \<notin> set (map fst (edges (create_lineage_graph tables (ts_before @ t # ts_after) True focus))))"
proof -
  let ?B = "graph_before_mapping tables ts_before t ms_before focus"
  let ?G = "create_lineage_graph tables (ts_before @ t # ts_after) True focus"
  note G = create_lineage_graph_at_mapping [OF assms(1), of tables ts_before ts_after focus]
  from assms(2) have "\<not> has_node ?B (source_id m) \<or> \<not> has_node ?B (target_id m)"
    by (simp add: has_node_graph_before_mapping)
  then have same: "add_mapping_edges t m ?B = ?B"
    by (rule add_mapping_edges_missing)
  have src: "(source_id m, Transformation.name t) \<notin> set (map fst (edges ?G))"
    if "source_id m \<notin> set (spec_node_ids tables (ts_before @ t # ts_after) focus)"
    using that edge_ends_are_nodes [of "source_id m" "Transformation.name t" tables
        "ts_before @ t # ts_after" True focus]
    by (auto simp: has_node_create_lineage_graph)
  have tgt: "(Transformation.name t, target_id m) \<notin> set (map fst (edges ?G))"
    if "target_id m \<notin> set (spec_node_ids tables (ts_before @ t # ts_after) focus)"
    using that edge_ends_are_nodes [of "Transformation.name t" "target_id m" tables
        "ts_before @ t # ts_after" True focus]
    by (auto simp: has_node_create_lineage_graph)
  from same G src tgt show ?thesis by simp
qed

text \<open>
  Two runs. \<open>transformation_T_dangling\<close> maps \<open>A.x\<close> to \<open>B.y\<close> and to \<open>D.z\<close>, and no
  table \<open>D\<close> exists: the second mapping adds nothing, although its source \<open>A.x\<close> is
  a node. With the focus on \<open>B.y\<close> the table \<open>A\<close> is skipped: the mapping of
  \<open>transformation_T\<close> from \<open>A.x\<close> to \<open>B.y\<close> adds nothing, although its target is a node.
\<close>

theorem dangling_mapping_adds_no_edges_witness:
  "column_mappings transformation_T_dangling = [mapping_xy] @ mapping_xz # []
   \<and> spec_node_ids [table_A, table_B] ([] @ [transformation_T_dangling]) None
       = [''A'', ''B'', ''A.x'', ''B.y'', ''T'']
   \<and> source_id mapping_xz = ''A.x'' \<and> target_id mapping_xz = ''D.z''
   \<and> add_mapping_edges transformation_T_dangling mapping_xz
         (graph_before_mapping [table_A, table_B] [] transformation_T_dangling [mapping_xy] None)
       = graph_before_mapping [table_A, table_B] [] transformation_T_dangling [mapping_xy] None
   \<and> create_lineage_graph [table_A, table_B] ([] @ transformation_T_dangling # []) True None
       = graph_before_mapping [table_A, table_B] [] transformation_T_dangling [mapping_xy] None
   \<and> set (map fst (edges (create_lineage_graph [table_A, table_B]
                             ([] @ transformation_T_dangling # []) True None)))
       = {(''A'', ''A.x''), (''B'', ''B.y''), (''A.x'', ''T''), (''T'', ''B.y'')}
   \<and> column_mappings transformation_T = [] @ mapping_xy # []
   \<and> spec_node_ids [table_A, table_B] ([] @ [transformation_T]) (Some ''B.y'')
       = [''B'', ''B.y'', ''T'']
   \<and> source_id mapping_xy = ''A.x'' \<and> target_id mapping_xy = ''B.y''
   \<and> add_mapping_edges transformation_T mapping_xy
         (graph_before_mapping [table_A, table_B] [] transformation_T [] (Some ''B.y''))
       = graph_before_mapping [table_A, table_B] [] transformation_T [] (Some ''B.y'')
   \<and> set (map fst (edges (create_lineage_graph [table_A, table_B]
                             ([] @ transformation_T # []) True (Some ''B.y''))))
       = {(''B'', ''B.y'')}"
proof -
  have h1: "column_mappings transformation_T_dangling = [mapping_xy] @ mapping_xz # []"
    by (simp add: transformation_T_dangling_def Transformation_init_def)
  have n1: "spec_node_ids [table_A, table_B] [transformation_T_dangling] None
              = [''A'', ''B'', ''A.x'', ''B.y'', ''T'']"
    by code_simp
  have ids1: "spec_node_ids [table_A, table_B] ([] @ [transformation_T_dangling]) None
                = [''A'', ''B'', ''A.x'', ''B.y'', ''T'']"
    by (simp add: n1)
  have xz: "source_id mapping_xz = ''A.x''" "target_id mapping_xz = ''D.z''"
    by (simp_all add: source_id_def target_id_def mapping_xz_def ColumnMapping_init_def)
  have h2: "source_id mapping_xz
              \<notin> set (spec_node_ids [table_A, table_B] ([] @ [transformation_T_dangling]) None)
            \<or> target_id mapping_xz
              \<notin> set (spec_node_ids [table_A, table_B] ([] @ [transformation_T_dangling]) None)"
    by (simp add: n1 xz)
  have e1: "map fst (edges (create_lineage_graph [table_A, table_B]
                        ([] @ transformation_T_dangling # []) True None))
       = [(''A'', ''A.x''), (''B'', ''B.y''), (''A.x'', ''T''), (''T'', ''B.y'')]"
    by code_simp
  have k1: "column_mappings transformation_T = [] @ mapping_xy # []"
    by (simp add: transformation_T_def Transformation_init_def)
  have n2: "spec_node_ids [table_A, table_B] [transformation_T] (Some ''B.y'')
              = [''B'', ''B.y'', ''T'']"
    by code_simp
  have ids2: "spec_node_ids [table_A, table_B] ([] @ [transformation_T]) (Some ''B.y'')
                = [''B'', ''B.y'', ''T'']"
    by (simp add: n2)
  have xy: "source_id mapping_xy = ''A.x''" "target_id mapping_xy = ''B.y''"
    by (simp_all add: source_id_def target_id_def mapping_xy_def ColumnMapping_init_def)
  have k2: "source_id mapping_xy
              \<notin> set (spec_node_ids [table_A, table_B] ([] @ [transformation_T]) (Some ''B.y''))
            \<or> target_id mapping_xy
              \<notin> set (spec_node_ids [table_A, table_B] ([] @ [transformation_T]) (Some ''B.y''))"
    by (simp add: n2 xy)
  have e2: "map fst (edges (create_lineage_graph [table_A, table_B]
                        ([] @ transformation_T # []) True (Some ''B.y'')))
       = [(''B'', ''B.y'')]"
    by code_simp
  note first = dangling_mapping_adds_no_edges
    [where t = transformation_T_dangling and ms_before = "[mapping_xy]" and m = mapping_xz
       and ms_after = "[]" and tables = "[table_A, table_B]" and ts_before = "[]" and ts_after = "[]"
       and focus = None, OF h1 h2]
  note second = dangling_mapping_adds_no_edges
    [where t = transformation_T and ms_before = "[]" and m = mapping_xy
       and ms_after = "[]" and tables = "[table_A, table_B]" and ts_before = "[]" and ts_after = "[]"
       and focus = "Some ''B.y''", OF k1 k2]
  have a1: "add_mapping_edges transformation_T_dangling mapping_xz
         (graph_before_mapping [table_A, table_B] [] transformation_T_dangling [mapping_xy] None)
       = graph_before_mapping [table_A, table_B] [] transformation_T_dangling [mapping_xy] None"
    and a2: "create_lineage_graph [table_A, table_B] ([] @ transformation_T_dangling # []) True None
       = graph_before_mapping [table_A, table_B] [] transformation_T_dangling [mapping_xy] None"
    using first by simp_all
  have b1: "add_mapping_edges transformation_T mapping_xy
         (graph_before_mapping [table_A, table_B] [] transformation_T [] (Some ''B.y''))
       = graph_before_mapping [table_A, table_B] [] transformation_T [] (Some ''B.y'')"
    using second by simp
  have s1: "set (map fst (edges (create_lineage_graph [table_A, table_B]
                             ([] @ transformation_T_dangling # []) True None)))
       = {(''A'', ''A.x''), (''B'', ''B.y''), (''A.x'', ''T''), (''T'', ''B.y'')}"
    by (simp only: e1 list.set)
  have s2: "set (map fst (edges (create_lineage_graph [table_A, table_B]
                             ([] @ transformation_T # []) True (Some ''B.y''))))
       = {(''B'', ''B.y'')}"
    by (simp only: e2 list.set)
  from h1 ids1 xz a1 a2 s1 k1 ids2 xy b1 s2 show ?thesis
    by (intro conjI)
qed

section \<open>Properties of export and import\<close>

text \<open>
  Reading back what the export wrote: every dictionary of the exported document is
  parsed to the record it came from, except that a transformation gets the clock
  reading of the import as its \<open>created_date\<close>.
\<close>

lemma ebind_simps [simp]:
  "ebind (Inl e) f = Inl e"
  "ebind (Inr x) f = f x"
  by (simp_all add: ebind_def)

lemma as_strs_PStr: "as_strs (map PStr xs) = Inr xs"
  by (induction xs) (simp_all add: as_str_def)

lemma as_str_list_PStr: "as_str_list (or_empty_list (PList (map PStr xs))) = Inr xs"
  by (cases xs) (simp_all add: as_str_list_def or_empty_list_def falsy_def as_str_def as_strs_PStr)

lemma as_str_list_PStr': "as_str_list (PList (map PStr xs)) = Inr xs"
  by (simp add: as_str_list_def as_strs_PStr)

lemma parse_column_dict: "parse_column (column_dict c) = Inr c"
  by (simp add: parse_column_def column_dict_def subscript_def dict_get_def key_in_def
      as_str_def as_int_def as_str_list_PStr Column_init_def)

lemma parse_columns_dict: "parse_columns (map column_dict cs) = Inr cs"
  by (induction cs) (simp_all add: parse_column_dict)

lemma parse_table_dict: "parse_table now (table_dict t) = Inr t"
  by (simp add: parse_table_def table_dict_def subscript_def dict_get_def key_in_def
      as_str_def as_int_def as_str_list_PStr Table_init_def iterate_def parse_columns_dict)

lemma parse_tables_dict: "parse_tables clock k (map table_dict ts) = Inr ts"
  by (induction ts arbitrary: k) (simp_all add: parse_table_dict)

lemma parse_mapping_dict: "parse_mapping (mapping_dict m) = Inr m"
  by (simp add: parse_mapping_def mapping_dict_def subscript_def dict_get_def
      as_str_def ColumnMapping_init_def)

lemma parse_mappings_dict: "parse_mappings (map mapping_dict ms) = Inr ms"
  by (induction ms) (simp_all add: parse_mapping_dict)

lemma parse_transformation_dict:
  "parse_transformation now (transformation_dict t) = Inr (t\<lparr>created_date := now\<rparr>)"
  by (simp add: parse_transformation_def transformation_dict_def subscript_def dict_get_def
      key_in_def as_str_def as_str_list_PStr as_str_list_PStr' Transformation_init_def
      iterate_def parse_mappings_dict)

lemma parse_transformations_dict:
  "parse_transformations clock k (map transformation_dict ts) =
     Inr (map2 (\<lambda>i t. t\<lparr>created_date := clock i\<rparr>) [k..<k + length ts] ts)"
proof (induction ts arbitrary: k)
  case Nil
  then show ?case by simp
next
  case (Cons t ts)
  have "[k..<k + length (t # ts)] = k # [Suc k..<Suc k + length ts]"
    by (simp add: upt_rec)
  then show ?case
    by (simp add: parse_transformation_dict Cons.IH)
qed

lemma load_catalog_export_document:
  "load_catalog clock (export_document tables transformations) =
     Inr (tables,
          map2 (\<lambda>i t. t\<lparr>created_date := clock i\<rparr>)
            [length tables..<length tables + length transformations] transformations)"
  by (simp add: load_catalog_def export_document_def dict_get_def iterate_def
      parse_tables_dict parse_transformations_dict)

lemma import_after_export:
  "import_data clock (fst (export_data tables transformations filepath True fs)) filepath st =
     (st\<lparr>st_tables := tables,
         st_transformations :=
           map2 (\<lambda>i t. t\<lparr>created_date := clock i\<rparr>)
             [length tables..<length tables + length transformations] transformations\<rparr>,
      Success)"
  by (simp add: import_data_def export_data_def read_json_def load_catalog_export_document)

lemma parse_table_without_name:
  "parse_table now (PDict [(''schema'', PStr ''sales'')]) = Inl (KeyError ''name'')"
  by (simp add: parse_table_def subscript_def)

lemma load_broken_document: "load_catalog clock broken_document = Inl (KeyError ''name'')"
  by (simp add: load_catalog_def broken_document_def dict_get_def iterate_def parse_table_dict
      parse_table_without_name)

text \<open>
  C4 fails on \<open>created_date\<close>. The catalog of \<open>orders_table\<close> and
  \<open>enrich_transformation\<close> (created on 2024-01-02) is exported to \<open>catalog.json\<close> and
  imported on 2024-07-01: the import succeeds, the table comes back field for field,
  and the transformation comes back with the import's time as its \<open>created_date\<close>.
\<close>

theorem import_resets_created_date:
  "import_data import_clock exported_files ''catalog.json''
       \<lparr>st_tables = [], st_transformations = []\<rparr> =
     (\<lparr>st_tables = [orders_table],
       st_transformations = [enrich_transformation\<lparr>created_date := ''2024-07-01 09:30:00''\<rparr>]\<rparr>,
      Success)
   \<and> created_date enrich_transformation = ''2024-01-02 00:00:00''
   \<and> enrich_transformation\<lparr>created_date := ''2024-07-01 09:30:00''\<rparr> \<noteq> enrich_transformation"
proof -
  have "created_date enrich_transformation = ''2024-01-02 00:00:00''"
    by (simp add: enrich_transformation_def Transformation_init_def)
  moreover have "enrich_transformation\<lparr>created_date := ''2024-07-01 09:30:00''\<rparr>
                   \<noteq> enrich_transformation"
    by (simp add: enrich_transformation_def Transformation_init_def)
  ultimately show ?thesis
    by (simp add: exported_files_def import_after_export import_clock_def)
qed

text \<open>
  C8. An import that reports an exception leaves the session state as it was. The
  named causes are failures of this kind: a missing file, a file that is not JSON, and a
  document whose reconstruction raises. The state is replaced only in the branch where
  the whole document has been reconstructed.
\<close>

theorem import_failure_keeps_state:
  "(snd (import_data clock fs filepath st) = Failure e \<and> e \<noteq> Unrepresentable \<longrightarrow>
      fst (import_data clock fs filepath st) = st)
   \<and> (fs filepath = None \<longrightarrow>
        import_data clock fs filepath st = (st, Failure FileNotFoundError))
   \<and> (fs filepath = Some NotJSON \<longrightarrow>
        import_data clock fs filepath st = (st, Failure JSONDecodeError))
   \<and> (fs filepath = Some (Document data) \<and> load_catalog clock data = Inl e
        \<and> e \<noteq> Unrepresentable \<longrightarrow>
        import_data clock fs filepath st = (st, Failure e))"
  by (auto simp: import_data_def read_json_def split: sum.splits option.splits file_content.splits)

text \<open>
  Three failing imports into \<open>orders_state\<close>: \<open>broken.json\<close> raises \<open>KeyError\<close> at its
  second table, after the first one has been reconstructed; \<open>notes.txt\<close> is not JSON;
  \<open>missing.json\<close> does not exist.
\<close>

theorem import_failure_keeps_state_witness:
  "broken_files ''broken.json'' = Some (Document broken_document)
   \<and> load_catalog import_clock broken_document = Inl (KeyError ''name'')
   \<and> import_data import_clock broken_files ''broken.json'' orders_state
       = (orders_state, Failure (KeyError ''name''))
   \<and> broken_files ''notes.txt'' = Some NotJSON
   \<and> import_data import_clock broken_files ''notes.txt'' orders_state
       = (orders_state, Failure JSONDecodeError)
   \<and> broken_files ''missing.json'' = None
   \<and> import_data import_clock broken_files ''missing.json'' orders_state
       = (orders_state, Failure FileNotFoundError)
   \<and> snd (import_data import_clock broken_files ''broken.json'' orders_state)
       = Failure (KeyError ''name'')
   \<and> fst (import_data import_clock broken_files ''broken.json'' orders_state) = orders_state"
proof -
  have a: "broken_files ''broken.json'' = Some (Document broken_document)"
    and b: "broken_files ''notes.txt'' = Some NotJSON"
    and c: "broken_files ''missing.json'' = None"
    by (simp_all add: broken_files_def)
  have d: "load_catalog import_clock broken_document = Inl (KeyError ''name'')"
    by (rule load_broken_document)
  have e: "import_data import_clock broken_files ''broken.json'' orders_state
             = (orders_state, Failure (KeyError ''name''))"
    using import_failure_keeps_state
      [where clock = import_clock and fs = broken_files and filepath = "''broken.json''"
         and st = orders_state and data = broken_document and e = "KeyError ''name''"] a d
    by simp
  have f: "import_data import_clock broken_files ''notes.txt'' orders_state
             = (orders_state, Failure JSONDecodeError)"
    using import_failure_keeps_state
      [where clock = import_clock and fs = broken_files and filepath = "''notes.txt''"
         and st = orders_state] b
    by simp
  have g: "import_data import_clock broken_files ''missing.json'' orders_state
             = (orders_state, Failure FileNotFoundError)"
    using import_failure_keeps_state
      [where clock = import_clock and fs = broken_files and filepath = "''missing.json''"
         and st = orders_state] c
    by simp
  have h: "snd (import_data import_clock broken_files ''broken.json'' orders_state)
             = Failure (KeyError ''name'')"
    by (simp add: e)
  have i: "fst (import_data import_clock broken_files ''broken.json'' orders_state) = orders_state"
    using import_failure_keeps_state
      [where clock = import_clock and fs = broken_files and filepath = "''broken.json''"
         and st = orders_state and e = "KeyError ''name''"] h
    by simp
  from a b c d e f g h i show ?thesis by simp
qed

end
